theory Spec2Isabelle
  imports Main
begin

section \<open>Python values, exceptions and string operations\<close>

text \<open>
  The podcast flow of \<^verbatim>\<open>edumuse/flows/podcast_flow.py\<close> handles values whose shape is
  decided at run time: whatever \<^verbatim>\<open>json.loads\<close> returns becomes the dialogue, and the
  result of \<^verbatim>\<open>process\<close> is a dictionary. Both are values of \<open>pyval\<close>. A dictionary
  is the list of its items in insertion order, looked up with \<open>map_of\<close>; its keys are
  strings, as in JSON. A float is the pair \<open>(m, e)\<close> standing for \<open>m * 2 ^ e\<close>.

  A Python \<^verbatim>\<open>str\<close> is a \<open>string\<close>, one \<open>char\<close> per code point, so the texts
  modelled are those whose code points are below 256.
\<close>

datatype pyval =
    PNone
  | PBool bool
  | PInt int
  | PFloat int int
  | PStr string
  | PList "pyval list"
  | PDict "(string \<times> pyval) list"

text \<open>
  An exception is its class and its message \<^verbatim>\<open>str(e)\<close>. Every class here derives
  from \<^verbatim>\<open>Exception\<close>; \<open>OtherError\<close> stands for any further such class that a
  collaborating library raises. Messages of the interpreter's own errors follow CPython 3.12.
\<close>

datatype exn_class =
    KeyError
  | TypeError
  | AttributeError
  | JSONDecodeError
  | CalledProcessError
  | OSError
  | UnicodeEncodeError
  | OtherError

datatype exn = Exn exn_class string

fun exn_class_of :: "exn \<Rightarrow> exn_class" where
  "exn_class_of (Exn c m) = c"

fun exn_str :: "exn \<Rightarrow> string" where
  "exn_str (Exn c m) = m"

definition quoted :: "string \<Rightarrow> string" where
  "quoted s = [CHR 0x27] @ s @ [CHR 0x27]"

fun type_name :: "pyval \<Rightarrow> string" where
  "type_name PNone = ''NoneType''"
| "type_name (PBool b) = ''bool''"
| "type_name (PInt i) = ''int''"
| "type_name (PFloat m e) = ''float''"
| "type_name (PStr s) = ''str''"
| "type_name (PList xs) = ''list''"
| "type_name (PDict kvs) = ''dict''"

text \<open>\<^verbatim>\<open>v[key]\<close> with a string key.\<close>

fun py_getitem :: "pyval \<Rightarrow> string \<Rightarrow> exn + pyval" where
  "py_getitem (PDict kvs) k =
     (case map_of kvs k of
        None \<Rightarrow> Inl (Exn KeyError (quoted k))
      | Some v \<Rightarrow> Inr v)"
| "py_getitem (PStr s) k = Inl (Exn TypeError (''string indices must be integers, not '' @ quoted ''str''))"
| "py_getitem (PList xs) k =
     Inl (Exn TypeError ''list indices must be integers or slices, not str'')"
| "py_getitem v k = Inl (Exn TypeError (quoted (type_name v) @ '' object is not subscriptable''))"

text \<open>\<^verbatim>\<open>len(v)\<close>.\<close>

fun py_len :: "pyval \<Rightarrow> exn + nat" where
  "py_len (PStr s) = Inr (length s)"
| "py_len (PList xs) = Inr (length xs)"
| "py_len (PDict kvs) = Inr (length kvs)"
| "py_len v = Inl (Exn TypeError (''object of type '' @ quoted (type_name v) @ '' has no len()''))"

text \<open>What a \<^verbatim>\<open>for\<close> loop over \<open>v\<close> visits: the items of a list, the keys of a
  dictionary, the one-character strings of a string.\<close>

fun py_iter :: "pyval \<Rightarrow> exn + pyval list" where
  "py_iter (PList xs) = Inr xs"
| "py_iter (PDict kvs) = Inr (map (\<lambda>kv. PStr (fst kv)) kvs)"
| "py_iter (PStr s) = Inr (map (\<lambda>c. PStr [c]) s)"
| "py_iter v = Inl (Exn TypeError (quoted (type_name v) @ '' object is not iterable''))"

text \<open>\<^verbatim>\<open>str.isspace\<close> on one code point below 256.\<close>

definition py_isspace :: "char \<Rightarrow> bool" where
  "py_isspace c = ((of_char c :: nat) \<in> set [9, 10, 11, 12, 13, 28, 29, 30, 31, 32, 133, 160])"

text \<open>\<^verbatim>\<open>s.strip()\<close> and \<^verbatim>\<open>s.strip(chars)\<close>.\<close>

definition strip_where :: "(char \<Rightarrow> bool) \<Rightarrow> string \<Rightarrow> string" where
  "strip_where p s = rev (dropWhile p (rev (dropWhile p s)))"

definition py_strip :: "string \<Rightarrow> string" where
  "py_strip s = strip_where py_isspace s"

definition py_strip_chars :: "string \<Rightarrow> string \<Rightarrow> string" where
  "py_strip_chars chars s = strip_where (\<lambda>c. c \<in> set chars) s"

definition startswith :: "string \<Rightarrow> string \<Rightarrow> bool" where
  "startswith s p = (take (length p) s = p)"

definition endswith :: "string \<Rightarrow> string \<Rightarrow> bool" where
  "endswith s p = (length p \<le> length s \<and> drop (length s - length p) s = p)"

text \<open>\<^verbatim>\<open>s.endswith((p1, p2, ...))\<close>: a tuple of suffixes.\<close>

definition endswith_any :: "string \<Rightarrow> string list \<Rightarrow> bool" where
  "endswith_any s ps = list_ex (endswith s) ps"

text \<open>\<^verbatim>\<open>s.lower()\<close> below code point 256: the ASCII capitals and the Latin-1 capitals
  (0xC0 to 0xDE but the multiplication sign 0xD7) move up by 32.\<close>

definition lower_char :: "char \<Rightarrow> char" where
  "lower_char c =
     (let n = (of_char c :: nat)
      in if (65 \<le> n \<and> n \<le> 90) \<or> (192 \<le> n \<and> n \<le> 222 \<and> n \<noteq> 215)
         then char_of (n + 32) else c)"

definition py_lower :: "string \<Rightarrow> string" where
  "py_lower s = map lower_char s"

text \<open>\<^verbatim>\<open>s.split('\n')\<close>: never empty, one more piece than there are newlines.\<close>

fun split_nl :: "string \<Rightarrow> string list" where
  "split_nl [] = [[]]"
| "split_nl (c # cs) =
     (if c = CHR 0x0A then [] # split_nl cs
      else (c # hd (split_nl cs)) # tl (split_nl cs))"

text \<open>\<^verbatim>\<open>s.replace(' ', '_')\<close>.\<close>

definition replace_spaces :: "string \<Rightarrow> string" where
  "replace_spaces s = map (\<lambda>c. if c = CHR '' '' then CHR ''_'' else c) s"

text \<open>\<^verbatim>\<open>os.path.join(d, name)\<close> for a relative \<open>name\<close> and a directory that does not
  end in a separator.\<close>

definition path_join :: "string \<Rightarrow> string \<Rightarrow> string" where
  "path_join d name = d @ ''/'' @ name"

text \<open>Decimal digits of a natural number, and the format \<^verbatim>\<open>{i:03d}\<close>: at least three
  digits, padded with zeros on the left.\<close>

fun digits :: "nat \<Rightarrow> string" where
  "digits n = (if n < 10 then [char_of (48 + n)] else digits (n div 10) @ [char_of (48 + n mod 10)])"

declare digits.simps [simp del]

definition pad03d :: "nat \<Rightarrow> string" where
  "pad03d i = replicate (3 - length (digits i)) (CHR ''0'') @ digits i"


section \<open>The collaborators and the world they act on\<close>

text \<open>
  The flow talks to a chat completion service, a speech synthesis service, the muxing
  utility \<^verbatim>\<open>ffmpeg\<close>, the probe \<^verbatim>\<open>ffprobe\<close>, the clock and the file system. None of
  them is code of the repository, so each is a field of the environment \<open>env\<close>: a function
  from the request to what the call returns (\<open>Inr\<close>) or raises (\<open>Inl\<close>). The speech service
  is also given the position of the line it is asked for, so that two lines with the same
  words may fare differently. \<open>json_loads\<close>, \<open>py_str\<close> (Python's \<^verbatim>\<open>str\<close> of a value that is
  not a string) and \<open>format_exc\<close> (\<^verbatim>\<open>traceback.format_exc()\<close> while the exception is
  handled) are library functions and are fields as well. So is the standard output, to
  which every stage prints its messages: \<open>stdout_error\<close> is \<open>None\<close> where it takes every
  message, and else what \<^verbatim>\<open>print\<close> raises (see \<open>process_call\<close> below).

  The world is what a run changes: the regular files (path and content), the directories,
  and the log of the calls made to the collaborators, oldest first.
\<close>

record chat_request =
  model_name :: string
  messages :: "(string \<times> string) list"
  temperature_tenths :: nat
  max_tokens :: nat

datatype call =
    ChatCall chat_request
  | SpeechCall nat pyval pyval string
  | FfmpegCall "string list"
  | FfprobeCall "string list"

record world =
  files :: "(string \<times> string) list"
  dirs :: "string list"
  calls :: "call list"

record env =
  chat_create :: "chat_request \<Rightarrow> exn + string option"
  json_loads :: "string \<Rightarrow> exn + pyval"
  elevenlabs_generate :: "nat \<Rightarrow> pyval \<Rightarrow> pyval \<Rightarrow> string \<Rightarrow> exn + string"
  run_ffmpeg :: "string list \<Rightarrow> exn + string"
  run_ffprobe :: "string list \<Rightarrow> exn + int \<times> int"
  py_str :: "pyval \<Rightarrow> string"
  format_exc :: "exn \<Rightarrow> string"
  uploads_dir :: string
  now_strftime :: string
  now_isoformat :: string
  stdout_error :: "exn option"

text \<open>
  \<open>chat_create\<close> returns the \<^verbatim>\<open>content\<close> of the first choice; \<open>None\<close> is a response
  whose content is \<^verbatim>\<open>None\<close>. The sampling temperature of a request is kept in tenths
  (\<^verbatim>\<open>0.3\<close> is 3). \<open>run_ffmpeg\<close> returns the bytes of the output file it
  wrote; \<open>run_ffprobe\<close> returns the duration, that is \<^verbatim>\<open>float(result.stdout.strip())\<close>,
  and raises what either the probe or the conversion raises.
\<close>

definition log_call :: "call \<Rightarrow> world \<Rightarrow> world" where
  "log_call c w = w\<lparr>calls := calls w @ [c]\<rparr>"

definition file_exists :: "string \<Rightarrow> world \<Rightarrow> bool" where
  "file_exists p w = (p \<in> set (map fst (files w)))"

text \<open>\<^verbatim>\<open>os.makedirs(p, exist_ok=True)\<close> fails when \<open>p\<close> is a regular file.\<close>

definition makedirs :: "string \<Rightarrow> world \<Rightarrow> exn + world" where
  "makedirs p w =
     (if file_exists p w then Inl (Exn OSError (''[Errno 17] File exists: '' @ quoted p))
      else Inr (w\<lparr>dirs := List.insert p (dirs w)\<rparr>))"

text \<open>\<^verbatim>\<open>with open(p, mode) as f: f.write(data)\<close>, in a directory that exists and can be
  written: the file is created or replaced.\<close>

definition write_file :: "string \<Rightarrow> string \<Rightarrow> world \<Rightarrow> world" where
  "write_file p data w = w\<lparr>files := filter (\<lambda>kv. fst kv \<noteq> p) (files w) @ [(p, data)]\<rparr>"

definition os_remove :: "string \<Rightarrow> world \<Rightarrow> exn + world" where
  "os_remove p w =
     (if file_exists p w then Inr (w\<lparr>files := filter (\<lambda>kv. fst kv \<noteq> p) (files w)\<rparr>)
      else Inl (Exn OSError (''[Errno 2] No such file or directory: '' @ quoted p)))"

definition dir_entries :: "string \<Rightarrow> world \<Rightarrow> string list" where
  "dir_entries d w = filter (\<lambda>p. startswith p (d @ ''/'')) (map fst (files w) @ dirs w)"

definition os_rmdir :: "string \<Rightarrow> world \<Rightarrow> exn + world" where
  "os_rmdir d w =
     (if d \<notin> set (dirs w) then Inl (Exn OSError (''[Errno 2] No such file or directory: '' @ quoted d))
      else if dir_entries d w \<noteq> [] then Inl (Exn OSError (''[Errno 39] Directory not empty: '' @ quoted d))
      else Inr (w\<lparr>dirs := removeAll d (dirs w)\<rparr>))"

section \<open>The inputs of \<^verbatim>\<open>process\<close>\<close>

text \<open>
  A source is a dictionary read with \<^verbatim>\<open>source.get("content", "")\<close> and
  \<^verbatim>\<open>source.get("title")\<close>; the generation context is read with
  \<^verbatim>\<open>context.get("topic", "Educational Topic")\<close>. Each key holds a text or is absent.
\<close>

record source =
  src_content :: "string option"
  src_title :: "string option"

record gen_context =
  ctx_topic :: "string option"

definition get_topic :: "gen_context \<Rightarrow> string" where
  "get_topic c = (case ctx_topic c of None \<Rightarrow> ''Educational Topic'' | Some t \<Rightarrow> t)"

text \<open>Truth value of a variable that holds \<^verbatim>\<open>None\<close> or a string.\<close>

fun truthy :: "string option \<Rightarrow> bool" where
  "truthy None = False"
| "truthy (Some s) = (s \<noteq> [])"

definition HOST_VOICE_ID :: string where
  "HOST_VOICE_ID = ''JBFqnCBsd6RMkjVDRZzb''"

definition GUEST_VOICE_ID :: string where
  "GUEST_VOICE_ID = ''EXAVITQu4vr4xnSDxMaL''"

section \<open>Content and title\<close>

text \<open>The loop of \<^verbatim>\<open>process\<close> over the sources: the contents are concatenated and the
  first title that is not empty is kept.\<close>

fun sources_loop :: "source list \<Rightarrow> string \<Rightarrow> string option \<Rightarrow> string \<times> string option" where
  "sources_loop [] content document_title = (content, document_title)"
| "sources_loop (s # ss) content document_title =
     (let source_content = (case src_content s of None \<Rightarrow> [] | Some c \<Rightarrow> c)
      in sources_loop ss (content @ source_content)
           (if \<not> truthy document_title \<and> truthy (src_title s) then src_title s
            else document_title))"

definition title_like :: "string \<Rightarrow> bool" where
  "title_like line =
     (3 < length line \<and> length line < 100 \<and>
      \<not> endswith_any line [''.'', '':'', '';'', '','', ''?'', ''!''])"

text \<open>\<^verbatim>\<open>for i in range(n): line = lines[i].strip(); if ...: return line\<close>, from \<open>i\<close> on.\<close>

function title_scan :: "string list \<Rightarrow> nat \<Rightarrow> nat \<Rightarrow> string option" where
  "title_scan lines i n =
     (if i < n
      then (let line = py_strip (lines ! i)
            in if title_like line then Some line else title_scan lines (Suc i) n)
      else None)"
  by pat_completeness auto
termination
  by (relation "measure (\<lambda>(lines, i, n). n - i)") auto

declare title_scan.simps [simp del]

definition title_request :: "string \<Rightarrow> chat_request" where
  "title_request content =
     \<lparr>model_name = ''gpt-3.5-turbo'',
      messages =
        [(''system'', ''You are a helpful assistant.''),
         (''user'',
          ''Extract the title or main topic from this text. Respond with ONLY the title, nothing else:\<newline>\<newline>''
            @ take 1000 content)],
      temperature_tenths = 3,
      max_tokens = 50\<rparr>"

text \<open>\<^verbatim>\<open>_extract_title_from_content\<close>: the scan of the first five lines, then one chat
  call inside \<^verbatim>\<open>try\<close>; whatever it raises makes the result \<^verbatim>\<open>None\<close>.\<close>

definition extract_title_from_content :: "env \<Rightarrow> string \<Rightarrow> world \<Rightarrow> string option \<times> world" where
  "extract_title_from_content e content w =
     (let lines = split_nl content
      in case title_scan lines 0 (min 5 (length lines)) of
           Some line \<Rightarrow> (Some line, w)
         | None \<Rightarrow>
             (let w1 = log_call (ChatCall (title_request content)) w
              in case chat_create e (title_request content) of
                   Inl ex \<Rightarrow> (None, w1)
                 | Inr None \<Rightarrow> (None, w1)
                 | Inr (Some answer) \<Rightarrow> (Some (py_strip answer), w1)))"

text \<open>Lines 54 to 78 of \<^verbatim>\<open>process\<close>: the content, the document title, the world.\<close>

definition aggregate :: "env \<Rightarrow> source list \<Rightarrow> gen_context \<Rightarrow> world \<Rightarrow> string \<times> string \<times> world" where
  "aggregate e sources c w =
     (let (content, t0) = sources_loop sources [] None;
          (t1, w1) = (if \<not> truthy t0 then extract_title_from_content e content w else (t0, w))
      in (content,
          (case t1 of
             None \<Rightarrow> get_topic c
           | Some t \<Rightarrow> if t = [] then get_topic c else t),
          w1))"


section \<open>The dialogue\<close>

definition dialogue_prompt :: "string \<Rightarrow> string \<Rightarrow> string" where
  "dialogue_prompt content topic =
     (let clean_topic = (if endswith topic ''.pdf'' then take (length topic - 4) topic else topic)
      in ''You are a podcast script writer. Given the following content, ''
         @ ''generate a podcast-style conversation between a Host and a Guest. ''
         @ ''The conversation should be informative, engaging, and cover the main points. ''
         @ ''The topic is: '' @ clean_topic @ ''. ''
         @ ''The Host should introduce the topic by its proper title, not as a filename. ''
         @ ''Make the introduction natural and engaging, as if this were a real educational podcast. ''
         @ ''Return a **valid JSON list** of dictionaries. Each dictionary must have keys: ''
         @ quoted ''speaker'' @ '', '' @ quoted ''text'' @ '', '' @ quoted ''voice_id'' @ ''. ''
         @ ''Use this voice_id for Host: '' @ HOST_VOICE_ID
         @ '', and this for Guest: '' @ GUEST_VOICE_ID @ ''. ''
         @ ''Use only double quotes ('' @ [CHR 0x22] @ '') for all keys and values. ''
         @ ''Do not wrap the output in markdown or code blocks.\<newline>\<newline>''
         @ ''Content:\<newline>'' @ take 3000 content @ ''\<newline>\<newline>''
         @ ''Podcast Dialogue:'')"

definition dialogue_request :: "string \<Rightarrow> string \<Rightarrow> chat_request" where
  "dialogue_request content topic =
     \<lparr>model_name = ''gpt-3.5-turbo'',
      messages =
        [(''system'', ''You are a helpful assistant.''),
         (''user'', dialogue_prompt content topic)],
      temperature_tenths = 5,
      max_tokens = 1500\<rparr>"

definition dialogue_line :: "string \<Rightarrow> string \<Rightarrow> string \<Rightarrow> pyval" where
  "dialogue_line speaker words voice =
     PDict [(''speaker'', PStr speaker), (''text'', PStr words), (''voice_id'', PStr voice)]"

text \<open>The list returned by the \<^verbatim>\<open>except\<close> branch of \<^verbatim>\<open>_generate_podcast_dialogue\<close>.\<close>

definition fallback_dialogue :: "string \<Rightarrow> string \<Rightarrow> pyval list" where
  "fallback_dialogue content topic =
     [dialogue_line ''Host'' (''Welcome to this educational podcast about '' @ topic @ ''.'')
        HOST_VOICE_ID,
      dialogue_line ''Guest'' ''Thank you for having me. I'm excited to discuss this topic.''
        GUEST_VOICE_ID,
      dialogue_line ''Host''
        ''Let's start with the basics. Could you give our listeners an overview?''
        HOST_VOICE_ID,
      dialogue_line ''Guest'' (''Certainly. '' @ take 200 content @ ''...'') GUEST_VOICE_ID,
      dialogue_line ''Host''
        ''That's fascinating. What are some practical applications of this knowledge?''
        HOST_VOICE_ID,
      dialogue_line ''Guest'' ''There are several applications worth discussing...''
        GUEST_VOICE_ID]"

text \<open>Lines 210 to 214: the text handed to \<^verbatim>\<open>json.loads\<close>. Only an output that starts
  with three backticks is touched; then \<^verbatim>\<open>strip("`")\<close> takes every backtick off both
  ends.\<close>

definition unwrap_code_block :: "string \<Rightarrow> string" where
  "unwrap_code_block raw_output =
     (if startswith raw_output ''```''
      then (let r1 = py_strip (py_strip_chars ''`'' raw_output)
            in if startswith (py_lower r1) ''json'' then py_strip (drop (length ''json'') r1)
               else r1)
      else raw_output)"

text \<open>The body of the \<^verbatim>\<open>try\<close> of lines 204 to 219: \<open>Inl\<close> is the exception that sends
  control to the \<^verbatim>\<open>except\<close> branch. \<^verbatim>\<open>len(parsed_list)\<close> is evaluated for a debug
  message, so a parsed value without a length raises there.\<close>

definition parse_dialogue :: "env \<Rightarrow> string option \<Rightarrow> exn + pyval" where
  "parse_dialogue e response_content =
     (case response_content of
        None \<Rightarrow> Inl (Exn AttributeError (quoted ''NoneType'' @ '' object has no attribute '' @ quoted ''strip''))
      | Some c \<Rightarrow>
          (case json_loads e (unwrap_code_block (py_strip c)) of
             Inl ex \<Rightarrow> Inl ex
           | Inr parsed_list \<Rightarrow>
               (case py_len parsed_list of
                  Inl ex \<Rightarrow> Inl ex
                | Inr n \<Rightarrow> Inr parsed_list)))"

text \<open>\<^verbatim>\<open>_generate_podcast_dialogue\<close>. The chat call of line 193 stands before the
  \<^verbatim>\<open>try\<close>: what it raises leaves the function.\<close>

definition generate_podcast_dialogue :: "env \<Rightarrow> string \<Rightarrow> string \<Rightarrow> world \<Rightarrow> (exn + pyval) \<times> world" where
  "generate_podcast_dialogue e content topic w =
     (let w1 = log_call (ChatCall (dialogue_request content topic)) w
      in case chat_create e (dialogue_request content topic) of
           Inl ex \<Rightarrow> (Inl ex, w1)
         | Inr response_content \<Rightarrow>
             (case parse_dialogue e response_content of
                Inr parsed_list \<Rightarrow> (Inr parsed_list, w1)
              | Inl ex \<Rightarrow> (Inr (PList (fallback_dialogue content topic)), w1)))"

section \<open>The audio\<close>

definition segment_file :: "string \<Rightarrow> nat \<Rightarrow> string" where
  "segment_file temp_dir i = path_join temp_dir (''segment_'' @ pad03d i @ ''.mp3'')"

text \<open>The inner \<^verbatim>\<open>try\<close> (lines 263 to 283) up to the call of the speech service:
  the three debug messages read \<^verbatim>\<open>line['speaker']\<close>, \<^verbatim>\<open>line['voice_id']\<close> and
  \<^verbatim>\<open>len(line['text'])\<close>. The result is the words and the voice sent to the service.\<close>

definition speech_request :: "pyval \<Rightarrow> exn + pyval \<times> pyval" where
  "speech_request line =
     (case py_getitem line ''speaker'' of
        Inl ex \<Rightarrow> Inl ex
      | Inr speaker \<Rightarrow>
     (case py_getitem line ''voice_id'' of
        Inl ex \<Rightarrow> Inl ex
      | Inr voice \<Rightarrow>
     (case py_getitem line ''text'' of
        Inl ex \<Rightarrow> Inl ex
      | Inr words \<Rightarrow>
     (case py_len words of
        Inl ex \<Rightarrow> Inl ex
      | Inr n \<Rightarrow> Inr (words, voice)))))"

definition speech_model :: string where
  "speech_model = ''eleven_multilingual_v2''"

text \<open>The whole inner \<^verbatim>\<open>try\<close> for line \<open>i\<close>: the path of the segment file written, or
  the exception that makes the loop skip the line.\<close>

definition try_segment :: "env \<Rightarrow> string \<Rightarrow> nat \<Rightarrow> pyval \<Rightarrow> world \<Rightarrow> (exn + string) \<times> world" where
  "try_segment e temp_dir i line w =
     (case speech_request line of
        Inl ex \<Rightarrow> (Inl ex, w)
      | Inr (words, voice) \<Rightarrow>
          (let w1 = log_call (SpeechCall i words voice speech_model) w
           in case elevenlabs_generate e i words voice speech_model of
                Inl ex \<Rightarrow> (Inl ex, w1)
              | Inr audio_bytes \<Rightarrow>
                  (Inr (segment_file temp_dir i),
                   write_file (segment_file temp_dir i) audio_bytes w1)))"

text \<open>One turn of the loop of line 260. The two messages of lines 261 and 262 read
  \<^verbatim>\<open>line['speaker']\<close> and \<^verbatim>\<open>line['text']\<close> outside the inner \<^verbatim>\<open>try\<close>: what they raise
  ends the loop.\<close>

definition segment_step :: "env \<Rightarrow> string \<Rightarrow> nat \<Rightarrow> pyval \<Rightarrow> string list \<Rightarrow> world \<Rightarrow> (exn + string list) \<times> world" where
  "segment_step e temp_dir i line segment_files w =
     (case py_getitem line ''speaker'' of
        Inl ex \<Rightarrow> (Inl ex, w)
      | Inr speaker \<Rightarrow>
     (case py_getitem line ''text'' of
        Inl ex \<Rightarrow> (Inl ex, w)
      | Inr words \<Rightarrow>
     (case try_segment e temp_dir i line w of
        (Inl ex, w1) \<Rightarrow> (Inr segment_files, w1)
      | (Inr f, w1) \<Rightarrow> (Inr (segment_files @ [f]), w1))))"

fun segments_loop :: "env \<Rightarrow> string \<Rightarrow> (nat \<times> pyval) list \<Rightarrow> string list \<Rightarrow> world \<Rightarrow> (exn + string list) \<times> world" where
  "segments_loop e temp_dir [] segment_files w = (Inr segment_files, w)"
| "segments_loop e temp_dir ((i, line) # rest) segment_files w =
     (case segment_step e temp_dir i line segment_files w of
        (Inl ex, w1) \<Rightarrow> (Inl ex, w1)
      | (Inr segment_files1, w1) \<Rightarrow> segments_loop e temp_dir rest segment_files1 w1)"

definition manifest :: "string list \<Rightarrow> string" where
  "manifest segment_files = concat (map (\<lambda>f. ''file '' @ quoted f @ ''\<newline>'') segment_files)"

definition ffmpeg_cmd :: "string \<Rightarrow> string \<Rightarrow> string list" where
  "ffmpeg_cmd file_list_path output_path =
     [''ffmpeg'', ''-f'', ''concat'', ''-safe'', ''0'', ''-i'', file_list_path, ''-c'', ''copy'',
      output_path]"

fun remove_files :: "string list \<Rightarrow> world \<Rightarrow> exn option \<times> world" where
  "remove_files [] w = (None, w)"
| "remove_files (f # fs) w =
     (case os_remove f w of
        Inl ex \<Rightarrow> (Some ex, w)
      | Inr w1 \<Rightarrow> remove_files fs w1)"

text \<open>Lines 320 to 323, the clean-up after a successful run of the muxing utility.\<close>

definition clean_up :: "string list \<Rightarrow> string \<Rightarrow> string \<Rightarrow> world \<Rightarrow> exn option \<times> world" where
  "clean_up segment_files file_list_path temp_dir w =
     (case remove_files segment_files w of
        (Some ex, w1) \<Rightarrow> (Some ex, w1)
      | (None, w1) \<Rightarrow>
          (case os_remove file_list_path w1 of
             Inl ex \<Rightarrow> (Some ex, w1)
           | Inr w2 \<Rightarrow>
               (case os_rmdir temp_dir w2 of
                  Inl ex \<Rightarrow> (Some ex, w2)
                | Inr w3 \<Rightarrow> (None, w3))))"

text \<open>The outer \<^verbatim>\<open>try\<close> of \<^verbatim>\<open>_generate_audio\<close> (lines 257 to 339): every exception in
  it ends in \<^verbatim>\<open>return ""\<close>.\<close>

definition audio_try :: "env \<Rightarrow> pyval \<Rightarrow> string \<Rightarrow> string \<Rightarrow> world \<Rightarrow> string \<times> world" where
  "audio_try e dialogue temp_dir output_path w =
     (case py_iter dialogue of
        Inl ex \<Rightarrow> ([], w)
      | Inr lines \<Rightarrow>
     (case segments_loop e temp_dir (enumerate 0 lines) [] w of
        (Inl ex, w1) \<Rightarrow> ([], w1)
      | (Inr segment_files, w1) \<Rightarrow>
          if segment_files \<noteq> []
          then (let file_list_path = path_join temp_dir ''file_list.txt'';
                    w2 = write_file file_list_path (manifest segment_files) w1;
                    w3 = log_call (FfmpegCall (ffmpeg_cmd file_list_path output_path)) w2
                in case run_ffmpeg e (ffmpeg_cmd file_list_path output_path) of
                     Inl ex \<Rightarrow> ([], w3)
                   | Inr output_bytes \<Rightarrow>
                       (case clean_up segment_files file_list_path temp_dir
                               (write_file output_path output_bytes w3) of
                          (Some ex, w4) \<Rightarrow> ([], w4)
                        | (None, w4) \<Rightarrow> (output_path, w4)))
          else ([], w1)))"

definition temp_dir_of :: "env \<Rightarrow> string" where
  "temp_dir_of e = path_join (uploads_dir e) (''temp_segments_'' @ now_strftime e)"

definition output_path_of :: "env \<Rightarrow> string \<Rightarrow> string" where
  "output_path_of e topic =
     path_join (uploads_dir e) (''podcast_'' @ replace_spaces topic @ ''_'' @ now_strftime e @ ''.mp3'')"

text \<open>\<^verbatim>\<open>_generate_audio\<close>: the two directories are made before the \<^verbatim>\<open>try\<close>, and the
  message of line 255 takes \<^verbatim>\<open>len(dialogue)\<close> before it as well.\<close>

definition generate_audio :: "env \<Rightarrow> pyval \<Rightarrow> string \<Rightarrow> world \<Rightarrow> (exn + string) \<times> world" where
  "generate_audio e dialogue topic w =
     (case makedirs (uploads_dir e) w of
        Inl ex \<Rightarrow> (Inl ex, w)
      | Inr w1 \<Rightarrow>
     (case makedirs (temp_dir_of e) w1 of
        Inl ex \<Rightarrow> (Inl ex, w1)
      | Inr w2 \<Rightarrow>
     (case py_len dialogue of
        Inl ex \<Rightarrow> (Inl ex, w2)
      | Inr n \<Rightarrow>
     (case audio_try e dialogue (temp_dir_of e) (output_path_of e topic) w2 of
        (audio_path, w3) \<Rightarrow> (Inr audio_path, w3)))))"


section \<open>The transcript and the result\<close>

text \<open>A value inside an f-string: a string stands for itself, any other value for its
  \<^verbatim>\<open>str\<close>.\<close>

definition fmt :: "env \<Rightarrow> pyval \<Rightarrow> string" where
  "fmt e v = (case v of PStr s \<Rightarrow> s | _ \<Rightarrow> py_str e v)"

definition transcript_line :: "env \<Rightarrow> pyval \<Rightarrow> pyval \<Rightarrow> string" where
  "transcript_line e speaker words = ''**'' @ fmt e speaker @ ''**: '' @ fmt e words @ ''\<newline>\<newline>''"

fun format_lines :: "env \<Rightarrow> pyval list \<Rightarrow> string \<Rightarrow> exn + string" where
  "format_lines e [] formatted_text = Inr formatted_text"
| "format_lines e (line # rest) formatted_text =
     (case py_getitem line ''speaker'' of
        Inl ex \<Rightarrow> Inl ex
      | Inr speaker \<Rightarrow>
          (case py_getitem line ''text'' of
             Inl ex \<Rightarrow> Inl ex
           | Inr words \<Rightarrow> format_lines e rest (formatted_text @ transcript_line e speaker words)))"

definition transcript_header :: string where
  "transcript_header = ''# Podcast Transcript\<newline>\<newline>''"

definition format_dialogue_as_text :: "env \<Rightarrow> pyval \<Rightarrow> exn + string" where
  "format_dialogue_as_text e dialogue =
     (case py_iter dialogue of
        Inl ex \<Rightarrow> Inl ex
      | Inr lines \<Rightarrow> format_lines e lines transcript_header)"

definition ffprobe_cmd :: "string \<Rightarrow> string list" where
  "ffprobe_cmd audio_path =
     [''ffprobe'', ''-v'', ''error'', ''-show_entries'', ''format=duration'', ''-of'',
      ''default=noprint_wrappers=1:nokey=1'', audio_path]"

text \<open>\<^verbatim>\<open>_get_audio_duration\<close>: any exception gives \<^verbatim>\<open>0.0\<close>.\<close>

definition get_audio_duration :: "env \<Rightarrow> string \<Rightarrow> world \<Rightarrow> pyval \<times> world" where
  "get_audio_duration e audio_path w =
     (let w1 = log_call (FfprobeCall (ffprobe_cmd audio_path)) w
      in case run_ffprobe e (ffprobe_cmd audio_path) of
           Inl ex \<Rightarrow> (PFloat 0 0, w1)
         | Inr (m, x) \<Rightarrow> (PFloat m x, w1))"

definition voices_used :: pyval where
  "voices_used = PList [PStr HOST_VOICE_ID, PStr GUEST_VOICE_ID]"

text \<open>The three dictionaries \<^verbatim>\<open>process\<close> returns (lines 94, 109 and 127).\<close>

definition audio_failure_result :: "env \<Rightarrow> string \<Rightarrow> nat \<Rightarrow> (string \<times> pyval) list" where
  "audio_failure_result e transcript n =
     [(''flow_type'', PStr ''podcast''),
      (''sources_found'', PStr transcript),
      (''error'', PStr ''Failed to generate audio''),
      (''dialogue_segments'', PInt (int n)),
      (''metadata'',
       PDict [(''format'', PStr ''mp3''),
              (''voices_used'', voices_used),
              (''generated_at'', PStr (now_isoformat e))])]"

definition success_result :: "env \<Rightarrow> string \<Rightarrow> string \<Rightarrow> nat \<Rightarrow> pyval \<Rightarrow> (string \<times> pyval) list" where
  "success_result e transcript audio_path n duration =
     [(''flow_type'', PStr ''podcast''),
      (''sources_found'', PStr transcript),
      (''audio_output'', PStr audio_path),
      (''dialogue_segments'', PInt (int n)),
      (''metadata'',
       PDict [(''duration_seconds'', duration),
              (''format'', PStr ''mp3''),
              (''voices_used'', voices_used),
              (''generated_at'', PStr (now_isoformat e))])]"

definition error_result :: "env \<Rightarrow> exn \<Rightarrow> (string \<times> pyval) list" where
  "error_result e ex =
     [(''flow_type'', PStr ''podcast''),
      (''error'', PStr (''Error in podcast generation: '' @ exn_str ex)),
      (''sources_found'', PStr ''Failed to generate podcast''),
      (''metadata'',
       PDict [(''error_details'', PStr (format_exc e ex)),
              (''generated_at'', PStr (now_isoformat e))])]"

section \<open>\<^verbatim>\<open>process\<close>\<close>

text \<open>The body of the \<^verbatim>\<open>try\<close> of \<^verbatim>\<open>process\<close> (lines 51 to 120): the dictionary
  returned, or the exception that reaches the \<^verbatim>\<open>except\<close> clause of line 121.\<close>

definition process_body :: "env \<Rightarrow> source list \<Rightarrow> gen_context \<Rightarrow> world \<Rightarrow> (exn + (string \<times> pyval) list) \<times> world" where
  "process_body e sources c w =
     (case aggregate e sources c w of
        (content, document_title, w1) \<Rightarrow>
     (case generate_podcast_dialogue e content (get_topic c) w1 of
        (Inl ex, w2) \<Rightarrow> (Inl ex, w2)
      | (Inr dialogue, w2) \<Rightarrow>
     (case py_len dialogue of
        Inl ex \<Rightarrow> (Inl ex, w2)
      | Inr n \<Rightarrow>
     (case generate_audio e dialogue (get_topic c) w2 of
        (Inl ex, w3) \<Rightarrow> (Inl ex, w3)
      | (Inr audio_path, w3) \<Rightarrow>
          if audio_path = []
          then (case format_dialogue_as_text e dialogue of
                  Inl ex \<Rightarrow> (Inl ex, w3)
                | Inr transcript \<Rightarrow> (Inr (audio_failure_result e transcript n), w3))
          else (case format_dialogue_as_text e dialogue of
                  Inl ex \<Rightarrow> (Inl ex, w3)
                | Inr transcript \<Rightarrow>
                    (case get_audio_duration e audio_path w3 of
                       (duration, w4) \<Rightarrow>
                         (Inr (success_result e transcript audio_path n duration), w4)))))))"

text \<open>\<^verbatim>\<open>process\<close> on a standard output that takes every message: the
  \<^verbatim>\<open>except Exception\<close> clause turns the exception into the error dictionary.\<close>

definition process :: "env \<Rightarrow> source list \<Rightarrow> gen_context \<Rightarrow> world \<Rightarrow> (string \<times> pyval) list \<times> world" where
  "process e sources c w =
     (case process_body e sources c w of
        (Inl ex, w1) \<Rightarrow> (error_result e ex, w1)
      | (Inr result, w1) \<Rightarrow> (result, w1))"

text \<open>
  The messages. Every function of the flow prints messages, and the definitions above
  leave the \<^verbatim>\<open>print\<close> statements out: they are the run on a standard output that takes
  every message. Many messages start with a symbol outside Latin-1, the first statement of
  the \<^verbatim>\<open>try\<close> of \<^verbatim>\<open>process\<close> (line 51) and the first statement of its \<^verbatim>\<open>except\<close> clause
  (line 122) among them. A standard output that cannot take these symbols (an encoding
  without them, a closed stream) makes \<^verbatim>\<open>print\<close> raise: \<^verbatim>\<open>UnicodeEncodeError\<close> for the
  encoding.

  \<open>process_call\<close> is a call of \<^verbatim>\<open>process\<close> as its caller sees it, \<open>Inl\<close> being an exception
  that leaves the method. Where the standard output takes every message, the call returns
  what \<open>process\<close> computes. Where it does not, the message of line 51 raises inside the
  \<^verbatim>\<open>try\<close>, before anything else is done; the \<^verbatim>\<open>except\<close> clause is entered, and the message
  of line 122 raises in the handler itself, where nothing catches it: \<open>stdout_error\<close> is
  that exception.
\<close>

definition process_call :: "env \<Rightarrow> source list \<Rightarrow> gen_context \<Rightarrow> world \<Rightarrow> (exn + (string \<times> pyval) list) \<times> world" where
  "process_call e sources c w =
     (case stdout_error e of
        None \<Rightarrow> (case process e sources c w of (result, w1) \<Rightarrow> (Inr result, w1))
      | Some ex \<Rightarrow> (Inl ex, w))"


section \<open>Notions used to state the properties\<close>

text \<open>A dialogue line that the two messages of lines 261 and 262 can print: it has a
  speaker and a text.\<close>

definition has_speaker_and_text :: "pyval \<Rightarrow> bool" where
  "has_speaker_and_text line =
     (\<not> isl (py_getitem line ''speaker'') \<and> \<not> isl (py_getitem line ''text''))"

text \<open>Synthesis of line \<open>i\<close> fails: the inner \<^verbatim>\<open>try\<close> raises before the speech service
  is called, or the service raises.\<close>

definition synthesis_fails :: "env \<Rightarrow> nat \<Rightarrow> pyval \<Rightarrow> bool" where
  "synthesis_fails e i line =
     (case speech_request line of
        Inl ex \<Rightarrow> True
      | Inr (words, voice) \<Rightarrow> isl (elevenlabs_generate e i words voice speech_model))"

text \<open>The bytes the speech service returns for line \<open>i\<close>; \<open>None\<close> when the inner \<^verbatim>\<open>try\<close>
  raises.\<close>

definition synthesized :: "env \<Rightarrow> nat \<Rightarrow> pyval \<Rightarrow> string option" where
  "synthesized e i line =
     (case speech_request line of
        Inl ex \<Rightarrow> None
      | Inr (words, voice) \<Rightarrow>
          (case elevenlabs_generate e i words voice speech_model of
             Inl ex \<Rightarrow> None
           | Inr audio_bytes \<Rightarrow> Some audio_bytes))"

text \<open>What one line contributes to the transcript.\<close>

definition line_markup :: "env \<Rightarrow> pyval \<Rightarrow> string" where
  "line_markup e line =
     (case py_getitem line ''speaker'' of
        Inl ex \<Rightarrow> []
      | Inr speaker \<Rightarrow>
          (case py_getitem line ''text'' of
             Inl ex \<Rightarrow> []
           | Inr words \<Rightarrow> transcript_line e speaker words))"

fun is_ffmpeg_call :: "call \<Rightarrow> bool" where
  "is_ffmpeg_call (FfmpegCall cmd) = True"
| "is_ffmpeg_call other = False"

text \<open>The line positions of the speech calls of a log, oldest first.\<close>

fun speech_positions :: "call list \<Rightarrow> nat list" where
  "speech_positions [] = []"
| "speech_positions (SpeechCall i words voice m # cs) = i # speech_positions cs"
| "speech_positions (other # cs) = speech_positions cs"

text \<open>The dialogue \<^verbatim>\<open>process\<close> obtains from \<^verbatim>\<open>_generate_podcast_dialogue\<close> (line 85), or the
  exception that call raises.\<close>

definition produced_dialogue :: "env \<Rightarrow> source list \<Rightarrow> gen_context \<Rightarrow> world \<Rightarrow> exn + pyval" where
  "produced_dialogue e sources c w =
     (case aggregate e sources c w of
        (content, document_title, w1) \<Rightarrow>
          fst (generate_podcast_dialogue e content (get_topic c) w1))"

text \<open>The number a string of decimal digits denotes.\<close>

definition nat_of_digits :: "string \<Rightarrow> nat" where
  "nat_of_digits s = foldl (\<lambda>a c. 10 * a + (of_char c - 48)) 0 s"

text \<open>A text whose first and last characters are neither white space nor a backtick, as
  a JSON array or object is.\<close>

definition bare :: "string \<Rightarrow> bool" where
  "bare s =
     (s \<noteq> [] \<and> \<not> py_isspace (hd s) \<and> hd s \<noteq> CHR 0x60
      \<and> \<not> py_isspace (last s) \<and> last s \<noteq> CHR 0x60)"

subsection \<open>The title chain as the specification words it\<close>

text \<open>
  The specification resolves the title by four resolvers tried in order, the first match
  winning: (a) the first source with a title that is not empty; (b) the first of the first
  five lines of the concatenated content whose trimmed length is strictly between 3 and 100
  and which does not end in one of \<^verbatim>\<open>. : ; , ? !\<close>; (c) the trimmed answer of the language
  model, asked about the first 1000 characters of the content; (d) the topic of the caller.
  A resolver matches when it yields a text that is not empty; a model call that raises
  yields none.
\<close>

definition spec_content :: "source list \<Rightarrow> string" where
  "spec_content sources =
     concat (map (\<lambda>s. case src_content s of None \<Rightarrow> [] | Some c \<Rightarrow> c) sources)"

definition spec_source_title :: "source list \<Rightarrow> string option" where
  "spec_source_title sources =
     (case find (\<lambda>s. truthy (src_title s)) sources of
        None \<Rightarrow> None
      | Some s \<Rightarrow> src_title s)"






subsection \<open>Example environments\<close>

definition empty_world :: world where
  "empty_world = \<lparr>files = [], dirs = [], calls = []\<rparr>"

text \<open>The values of \<^verbatim>\<open>json.loads\<close> on a few texts; on any other text of the examples below
  it raises.\<close>

definition example_json_loads :: "string \<Rightarrow> exn + pyval" where
  "example_json_loads s =
     (if s = ''[]'' then Inr (PList [])
      else if s = ''{}'' then Inr (PDict [])
      else if s = ''[{}]'' then Inr (PList [PDict []])
      else if s = ''5'' then Inr (PInt 5)
      else if s = ''[{\"speaker\": \"Host\", \"text\": \"Hi\", \"voice_id\": \"v\"}, {\"speaker\": \"Guest\"}]''
      then Inr (PList [PDict [(''speaker'', PStr ''Host''), (''text'', PStr ''Hi''),
                              (''voice_id'', PStr ''v'')],
                       PDict [(''speaker'', PStr ''Guest'')]])
      else Inl (Exn JSONDecodeError ''Expecting value: line 1 column 1 (char 0)''))"

text \<open>An environment where the chat service answers every request with \<open>answer\<close> and every
  other collaborator succeeds. Its \<open>py_str\<close> is a placeholder: the speakers and texts of the
  examples are strings, which stand for themselves.\<close>

definition example_env :: "string \<Rightarrow> env" where
  "example_env answer =
     \<lparr>chat_create = (\<lambda>r. Inr (Some answer)),
      json_loads = example_json_loads,
      elevenlabs_generate = (\<lambda>i words voice m. Inr ''audio''),
      run_ffmpeg = (\<lambda>cmd. Inr ''mp3''),
      run_ffprobe = (\<lambda>cmd. Inr (3, 0)),
      py_str = type_name,
      format_exc = (\<lambda>ex. ''Traceback (most recent call last): '' @ exn_str ex),
      uploads_dir = ''/app/uploads'',
      now_strftime = ''20240101_120000'',
      now_isoformat = ''2024-01-01T12:00:00'',
      stdout_error = None\<rparr>"

text \<open>An environment whose chat service is down.\<close>

definition failing_chat_env :: env where
  "failing_chat_env =
     (example_env [])\<lparr>chat_create := (\<lambda>r. Inl (Exn OtherError ''Connection error.''))\<rparr>"

text \<open>An environment whose speech service fails for the line at position 2 only.\<close>

definition flaky_speech_env :: env where
  "flaky_speech_env =
     (example_env [])\<lparr>elevenlabs_generate :=
        (\<lambda>i words voice m. if i = 2 then Inl (Exn OtherError ''quota exceeded'') else Inr ''audio'')\<rparr>"

text \<open>An environment whose chat service answers with a text that is not JSON and whose
  speech service fails for every line.\<close>

definition silent_speech_env :: env where
  "silent_speech_env =
     (example_env ''not json at all'')\<lparr>elevenlabs_generate :=
        (\<lambda>i words voice m. Inl (Exn OtherError ''service unavailable''))\<rparr>"

text \<open>An answer of the chat service whose second line has no text; a world where the path
  of the uploads directory is taken by a regular file; an environment whose muxing utility
  exits with an error; a script of one line.\<close>

definition two_line_answer :: string where
  "two_line_answer =
     ''[{\"speaker\": \"Host\", \"text\": \"Hi\", \"voice_id\": \"v\"}, {\"speaker\": \"Guest\"}]''"

definition blocked_world :: world where
  "blocked_world = \<lparr>files = [(''/app/uploads'', [])], dirs = [], calls = []\<rparr>"

definition failing_ffmpeg_env :: env where
  "failing_ffmpeg_env =
     (example_env ''not json at all'')\<lparr>run_ffmpeg :=
        (\<lambda>cmd. Inl (Exn CalledProcessError ''Command returned non-zero exit status 1.''))\<rparr>"

definition one_line_dialogue :: pyval where
  "one_line_dialogue = PList [dialogue_line ''Host'' ''Hi'' HOST_VOICE_ID]"

text \<open>An environment whose standard output has the encoding \<^verbatim>\<open>ascii\<close>.\<close>

definition legacy_stdout_env :: env where
  "legacy_stdout_env =
     (example_env ''not json at all'')\<lparr>stdout_error :=
        Some (Exn UnicodeEncodeError
               (quoted ''ascii'' @ '' codec can't encode character '' @ quoted ([CHR 0x5C] @ ''u274c'')
                @ '' in position 0: ordinal not in range(128)''))\<rparr>"

text \<open>An environment whose speech service answers every line with an empty response.\<close>

definition empty_audio_env :: env where
  "empty_audio_env = (example_env [])\<lparr>elevenlabs_generate := (\<lambda>i words voice m. Inr [])\<rparr>"

section \<open>The result of \<^verbatim>\<open>process\<close>\<close>

lemma error_result_keys:
  "map_of (error_result e ex) ''flow_type'' = Some (PStr ''podcast'')"
  "map_of (error_result e ex) ''sources_found'' = Some (PStr ''Failed to generate podcast'')"
  "map_of (error_result e ex) ''error'' = Some (PStr (''Error in podcast generation: '' @ exn_str ex))"
  "map_of (error_result e ex) ''metadata'' =
     Some (PDict [(''error_details'', PStr (format_exc e ex)),
                  (''generated_at'', PStr (now_isoformat e))])"
  "map_of (error_result e ex) ''audio_output'' = None"
  by (simp_all add: error_result_def)

lemma audio_failure_result_keys:
  "map_of (audio_failure_result e t n) ''flow_type'' = Some (PStr ''podcast'')"
  "map_of (audio_failure_result e t n) ''sources_found'' = Some (PStr t)"
  "map_of (audio_failure_result e t n) ''error'' = Some (PStr ''Failed to generate audio'')"
  "map_of (audio_failure_result e t n) ''audio_output'' = None"
  "map_of (audio_failure_result e t n) ''metadata'' =
     Some (PDict [(''format'', PStr ''mp3''), (''voices_used'', voices_used),
                  (''generated_at'', PStr (now_isoformat e))])"
  by (simp_all add: audio_failure_result_def)

lemma success_result_keys:
  "map_of (success_result e t p n d) ''flow_type'' = Some (PStr ''podcast'')"
  "map_of (success_result e t p n d) ''sources_found'' = Some (PStr t)"
  "map_of (success_result e t p n d) ''error'' = None"
  "map_of (success_result e t p n d) ''audio_output'' = Some (PStr p)"
  "map_of (success_result e t p n d) ''metadata'' =
     Some (PDict [(''duration_seconds'', d), (''format'', PStr ''mp3''),
                  (''voices_used'', voices_used), (''generated_at'', PStr (now_isoformat e))])"
  by (simp_all add: success_result_def)

lemma process_result_cases:
  "(\<exists>ex. fst (process e sources c w) = error_result e ex)
   \<or> (\<exists>t n. fst (process e sources c w) = audio_failure_result e t n)
   \<or> (\<exists>t p n d. fst (process e sources c w) = success_result e t p n d)"
  unfolding process_def process_body_def
  by (simp split: prod.splits sum.splits if_splits) blast

text \<open>
  Claim C10. On every exit path (success, no audio, the catch-all handler) the dictionary
  returned by \<^verbatim>\<open>process\<close> holds \<^verbatim>\<open>"flow_type"\<close> with the value \<^verbatim>\<open>"podcast"\<close>, a string under
  \<^verbatim>\<open>"sources_found"\<close>, and under \<^verbatim>\<open>"metadata"\<close> a dictionary that holds the time stamp
  \<^verbatim>\<open>"generated_at"\<close>.
\<close>

theorem process_result_shape:
  "map_of (fst (process e sources c w)) ''flow_type'' = Some (PStr ''podcast'')
   \<and> (\<exists>s. map_of (fst (process e sources c w)) ''sources_found'' = Some (PStr s))
   \<and> (\<exists>m. map_of (fst (process e sources c w)) ''metadata'' = Some (PDict m)
          \<and> map_of m ''generated_at'' = Some (PStr (now_isoformat e)))"
  using process_result_cases [of e sources c w]
  by (auto simp: error_result_keys audio_failure_result_keys success_result_keys)

section \<open>Exceptions that reach the handler\<close>

lemma dialogue_exception_reaches_handler:
  assumes "aggregate e sources c w = (content, t, w1)"
    and "generate_podcast_dialogue e content (get_topic c) w1 = (Inl ex, w2)"
  shows "process e sources c w = (error_result e ex, w2)"
  using assms by (simp add: process_def process_body_def)

lemma audio_exception_reaches_handler:
  assumes "aggregate e sources c w = (content, t, w1)"
    and "generate_podcast_dialogue e content (get_topic c) w1 = (Inr dialogue, w2)"
    and "py_len dialogue = Inr n"
    and "generate_audio e dialogue (get_topic c) w2 = (Inl ex, w3)"
  shows "process e sources c w = (error_result e ex, w3)"
  using assms by (simp add: process_def process_body_def)

lemma transcript_exception_reaches_handler:
  assumes "aggregate e sources c w = (content, t, w1)"
    and "generate_podcast_dialogue e content (get_topic c) w1 = (Inr dialogue, w2)"
    and "py_len dialogue = Inr n"
    and "generate_audio e dialogue (get_topic c) w2 = (Inr audio_path, w3)"
    and "format_dialogue_as_text e dialogue = Inl ex"
  shows "process e sources c w = (error_result e ex, w3)"
  using assms by (simp add: process_def process_body_def)

section \<open>The fallback script\<close>

text \<open>
  Claim C5. The fallback script has six lines, spoken in turn by Host and Guest, Host
  first, each with the voice of its speaker: the welcome
  \<^verbatim>\<open>"Welcome to this educational podcast about <topic>."\<close>, the acknowledgment of the guest,
  the host asking for an overview, the guest echoing the first 200 characters of the
  content, the host's follow-up question, and the closing line of the guest. It is a
  function of the content and the topic alone, and building it makes no call: whatever the
  chat service answers, the log after \<^verbatim>\<open>_generate_podcast_dialogue\<close> holds the one chat
  request more.
\<close>

theorem fallback_dialogue_shape:
  "length (fallback_dialogue content topic) = 6
   \<and> map (\<lambda>line. py_getitem line ''speaker'') (fallback_dialogue content topic)
       = map (\<lambda>s. Inr (PStr s)) [''Host'', ''Guest'', ''Host'', ''Guest'', ''Host'', ''Guest'']
   \<and> map (\<lambda>line. py_getitem line ''text'') (fallback_dialogue content topic)
       = map (\<lambda>s. Inr (PStr s))
           [''Welcome to this educational podcast about '' @ topic @ ''.'',
            ''Thank you for having me. I'm excited to discuss this topic.'',
            ''Let's start with the basics. Could you give our listeners an overview?'',
            ''Certainly. '' @ take 200 content @ ''...'',
            ''That's fascinating. What are some practical applications of this knowledge?'',
            ''There are several applications worth discussing...'']
   \<and> map (\<lambda>line. py_getitem line ''voice_id'') (fallback_dialogue content topic)
       = map (\<lambda>s. Inr (PStr s))
           [HOST_VOICE_ID, GUEST_VOICE_ID, HOST_VOICE_ID, GUEST_VOICE_ID, HOST_VOICE_ID,
            GUEST_VOICE_ID]
   \<and> snd (generate_podcast_dialogue e content topic w)
       = log_call (ChatCall (dialogue_request content topic)) w"
  by (simp add: fallback_dialogue_def dialogue_line_def generate_podcast_dialogue_def Let_def
      split: sum.splits)

section \<open>Content and title: the priority chain\<close>

lemma sources_loop_eq:
  "sources_loop sources content dt =
     (content @ spec_content sources,
      if truthy dt then dt
      else (case spec_source_title sources of None \<Rightarrow> dt | Some t \<Rightarrow> Some t))"
proof (induction sources arbitrary: content dt)
  case Nil
  then show ?case by (simp add: spec_content_def spec_source_title_def)
next
  case (Cons s ss)
  then show ?case
    by (simp add: spec_content_def spec_source_title_def Let_def split: option.splits)
qed










section \<open>Segment file names\<close>

lemma nat_of_digits_snoc: "nat_of_digits (s @ [c]) = 10 * nat_of_digits s + (of_char c - 48)"
  by (simp add: nat_of_digits_def)

lemma nat_of_digits_digits: "nat_of_digits (digits n) = n"
proof (induction n rule: digits.induct)
  case (1 n)
  show ?case
  proof (cases "n < 10")
    case True
    then show ?thesis by (subst digits.simps) (simp add: nat_of_digits_def)
  next
    case False
    have "nat_of_digits (digits n) =
            10 * nat_of_digits (digits (n div 10)) + (of_char (char_of (48 + n mod 10) :: char) - 48)"
      using False by (subst digits.simps) (simp add: nat_of_digits_snoc)
    moreover have "(of_char (char_of (48 + n mod 10) :: char) :: nat) = 48 + n mod 10"
      by simp
    ultimately show ?thesis using "1.IH" [OF False] by simp
  qed
qed

lemma nat_of_digits_zero: "nat_of_digits (CHR ''0'' # s) = nat_of_digits s"
  by (simp add: nat_of_digits_def)

lemma nat_of_digits_zeros: "nat_of_digits (replicate k (CHR ''0'') @ s) = nat_of_digits s"
  by (induction k) (simp_all add: nat_of_digits_zero)

lemma nat_of_digits_pad03d: "nat_of_digits (pad03d i) = i"
  by (simp add: pad03d_def nat_of_digits_zeros nat_of_digits_digits)

lemma length_digits_pos: "0 < length (digits n)"
  by (subst digits.simps) simp

lemma length_digits_10: "n < 10 \<Longrightarrow> length (digits n) = 1"
  by (subst digits.simps) simp

lemma length_digits_100: "n < 100 \<Longrightarrow> length (digits n) \<le> 2"
proof (cases "n < 10")
  case True
  then show ?thesis by (simp add: length_digits_10)
next
  case False
  assume "n < 100"
  then have "n div 10 < 10" by simp
  from length_digits_10 [OF this] False show ?thesis by (subst digits.simps) simp
qed

lemma length_digits_1000: "n < 1000 \<Longrightarrow> length (digits n) \<le> 3"
proof (cases "n < 10")
  case True
  then show ?thesis by (simp add: length_digits_10)
next
  case False
  assume "n < 1000"
  then have "n div 10 < 100" by simp
  from length_digits_100 [OF this] False show ?thesis by (subst digits.simps) simp
qed

lemma length_pad03d: "i < 1000 \<Longrightarrow> length (pad03d i) = 3"
  using length_digits_1000 [of i] by (simp add: pad03d_def)

section \<open>The synthesis loop\<close>

lemma try_segment_fails:
  "synthesis_fails e i line \<Longrightarrow> isl (fst (try_segment e td i line w))"
  by (auto simp: synthesis_fails_def try_segment_def Let_def split: sum.splits prod.splits)

lemma try_segment_succeeds:
  "\<not> synthesis_fails e i line \<Longrightarrow> fst (try_segment e td i line w) = Inr (segment_file td i)"
  by (auto simp: synthesis_fails_def try_segment_def Let_def split: sum.splits prod.splits)

lemma try_segment_speech_positions:
  "speech_positions (calls (snd (try_segment e td i line w))) =
     speech_positions (calls w) @ (if isl (speech_request line) then [] else [i])"
proof -
  have app: "speech_positions (cs @ [SpeechCall i a b m]) = speech_positions cs @ [i]" for cs a b m
    by (induction cs rule: speech_positions.induct) simp_all
  show ?thesis
    by (auto simp: try_segment_def Let_def log_call_def write_file_def app
        split: sum.splits prod.splits)
qed

lemma try_segment_ffmpeg_calls:
  "filter is_ffmpeg_call (calls (snd (try_segment e td i line w))) = filter is_ffmpeg_call (calls w)"
  by (auto simp: try_segment_def Let_def log_call_def write_file_def
      split: sum.splits prod.splits)

lemma segment_step_eq:
  "has_speaker_and_text line \<Longrightarrow>
     segment_step e td i line segs w =
       (Inr (if synthesis_fails e i line then segs else segs @ [segment_file td i]),
        snd (try_segment e td i line w))"
  using try_segment_fails [of e i line td w] try_segment_succeeds [of e i line td w]
  by (cases "try_segment e td i line w")
     (auto simp: has_speaker_and_text_def segment_step_def split: sum.splits)

lemma segments_loop_result:
  "list_all (\<lambda>p. has_speaker_and_text (snd p)) ps \<Longrightarrow>
     fst (segments_loop e td ps segs w) =
       Inr (segs @ map (\<lambda>p. segment_file td (fst p))
                     (filter (\<lambda>p. \<not> synthesis_fails e (fst p) (snd p)) ps))"
proof (induction ps arbitrary: segs w)
  case Nil
  then show ?case by simp
next
  case (Cons p ps)
  obtain i line where p: "p = (i, line)" by (cases p)
  with Cons.prems have hl: "has_speaker_and_text line"
    and rest: "list_all (\<lambda>p. has_speaker_and_text (snd p)) ps" by simp_all
  show ?case
    by (simp add: p segment_step_eq [OF hl] Cons.IH [OF rest])
qed

lemma segments_loop_speech_positions:
  "list_all (\<lambda>p. has_speaker_and_text (snd p)) ps \<Longrightarrow>
     speech_positions (calls (snd (segments_loop e td ps segs w))) =
       speech_positions (calls w) @ map fst (filter (\<lambda>p. \<not> isl (speech_request (snd p))) ps)"
proof (induction ps arbitrary: segs w)
  case Nil
  then show ?case by simp
next
  case (Cons p ps)
  obtain i line where p: "p = (i, line)" by (cases p)
  with Cons.prems have hl: "has_speaker_and_text line"
    and rest: "list_all (\<lambda>p. has_speaker_and_text (snd p)) ps" by simp_all
  show ?case
    by (simp add: p segment_step_eq [OF hl] Cons.IH [OF rest] try_segment_speech_positions)
qed

lemma segment_step_ffmpeg_calls:
  "filter is_ffmpeg_call (calls (snd (segment_step e td i line segs w))) =
     filter is_ffmpeg_call (calls w)"
  using try_segment_ffmpeg_calls [of e td i line w]
  by (cases "try_segment e td i line w")
     (auto simp: segment_step_def split: sum.splits)

lemma segments_loop_ffmpeg_calls:
  "filter is_ffmpeg_call (calls (snd (segments_loop e td ps segs w))) =
     filter is_ffmpeg_call (calls w)"
proof (induction ps arbitrary: segs w)
  case Nil
  then show ?case by simp
next
  case (Cons p ps)
  obtain i line where p: "p = (i, line)" by (cases p)
  show ?case
    using segment_step_ffmpeg_calls [of e td i line segs w]
    by (cases "segment_step e td i line segs w")
       (auto simp: p Cons.IH split: sum.splits)
qed

lemma list_all_enumerate:
  "list_all P xs \<Longrightarrow> list_all (\<lambda>p. P (snd p)) (enumerate k xs)"
  by (induction xs arbitrary: k) simp_all

lemma sorted_positions:
  "sorted_wrt (<) (map fst (filter Q (enumerate k xs)))"
proof -
  have "sorted_wrt (<) (map fst (enumerate k xs))" by (simp add: map_fst_enumerate)
  then show ?thesis by (metis sorted_wrt_filter filter_map sorted_wrt_map)
qed

lemma fallback_has_speaker_and_text:
  "list_all has_speaker_and_text (fallback_dialogue content topic)"
  by (simp add: fallback_dialogue_def dialogue_line_def has_speaker_and_text_def)

section \<open>No segment at all\<close>

lemma format_lines_eq:
  "list_all has_speaker_and_text lines \<Longrightarrow>
     format_lines e lines acc = Inr (acc @ concat (map (line_markup e) lines))"
proof (induction lines arbitrary: acc)
  case Nil
  then show ?case by simp
next
  case (Cons line lines)
  then show ?case
    by (auto simp: has_speaker_and_text_def line_markup_def split: sum.splits)
qed

lemma extract_title_world:
  "files (snd (extract_title_from_content e content w)) = files w"
  "dirs (snd (extract_title_from_content e content w)) = dirs w"
  "filter is_ffmpeg_call (calls (snd (extract_title_from_content e content w)))
     = filter is_ffmpeg_call (calls w)"
  by (simp_all add: extract_title_from_content_def Let_def log_call_def
      split: option.splits sum.splits)

lemma aggregate_world:
  "files (snd (snd (aggregate e sources c w))) = files w"
  "dirs (snd (snd (aggregate e sources c w))) = dirs w"
  "filter is_ffmpeg_call (calls (snd (snd (aggregate e sources c w))))
     = filter is_ffmpeg_call (calls w)"
  by (simp_all add: aggregate_def split_beta extract_title_world)

lemma generate_podcast_dialogue_world:
  "files (snd (generate_podcast_dialogue e content topic w)) = files w"
  "dirs (snd (generate_podcast_dialogue e content topic w)) = dirs w"
  "filter is_ffmpeg_call (calls (snd (generate_podcast_dialogue e content topic w)))
     = filter is_ffmpeg_call (calls w)"
  by (simp_all add: generate_podcast_dialogue_def Let_def log_call_def split: sum.splits)

lemma segments_loop_all_fail:
  assumes "list_all has_speaker_and_text lines"
    and "list_all (\<lambda>p. synthesis_fails e (fst p) (snd p)) (enumerate 0 lines)"
  shows "fst (segments_loop e td (enumerate 0 lines) [] w) = Inr []"
proof -
  from assms(2) have "filter (\<lambda>p. \<not> synthesis_fails e (fst p) (snd p)) (enumerate 0 lines) = []"
    by (simp add: list_all_iff filter_empty_conv)
  with segments_loop_result [OF list_all_enumerate [OF assms(1)], of e td 0 "[]" w]
  show ?thesis by simp
qed

lemma audio_try_all_fail:
  assumes "list_all has_speaker_and_text lines"
    and "list_all (\<lambda>p. synthesis_fails e (fst p) (snd p)) (enumerate 0 lines)"
  shows "fst (audio_try e (PList lines) td out w) = []"
    and "filter is_ffmpeg_call (calls (snd (audio_try e (PList lines) td out w)))
           = filter is_ffmpeg_call (calls w)"
  using segments_loop_all_fail [OF assms, of td w]
    segments_loop_ffmpeg_calls [of e td "enumerate 0 lines" "[]" w]
  by (cases "segments_loop e td (enumerate 0 lines) [] w"; simp add: audio_try_def)+

lemma makedirs_ok:
  "\<not> file_exists p w \<Longrightarrow> makedirs p w = Inr (w\<lparr>dirs := List.insert p (dirs w)\<rparr>)"
  by (simp add: makedirs_def)

lemma generate_audio_all_fail:
  assumes "list_all has_speaker_and_text lines"
    and "list_all (\<lambda>p. synthesis_fails e (fst p) (snd p)) (enumerate 0 lines)"
    and "\<not> file_exists (uploads_dir e) w" and "\<not> file_exists (temp_dir_of e) w"
  shows "fst (generate_audio e (PList lines) topic w) = Inr []"
    and "filter is_ffmpeg_call (calls (snd (generate_audio e (PList lines) topic w)))
           = filter is_ffmpeg_call (calls w)"
proof -
  let ?w1 = "w\<lparr>dirs := List.insert (uploads_dir e) (dirs w)\<rparr>"
  let ?w2 = "?w1\<lparr>dirs := List.insert (temp_dir_of e) (dirs ?w1)\<rparr>"
  have m1: "makedirs (uploads_dir e) w = Inr ?w1" using assms(3) by (rule makedirs_ok)
  have "\<not> file_exists (temp_dir_of e) ?w1" using assms(4) by (simp add: file_exists_def)
  then have m2: "makedirs (temp_dir_of e) ?w1 = Inr ?w2" by (rule makedirs_ok)
  from audio_try_all_fail [OF assms(1,2), of "temp_dir_of e" "output_path_of e topic" ?w2]
  show "fst (generate_audio e (PList lines) topic w) = Inr []"
    and "filter is_ffmpeg_call (calls (snd (generate_audio e (PList lines) topic w)))
           = filter is_ffmpeg_call (calls w)"
    by (simp_all add: generate_audio_def m1 m2 split_beta)
qed


text \<open>
  Claim C4. Let the dialogue be a list of lines that each have a speaker and a text, let
  synthesis fail for every line, and let the two directories of \<^verbatim>\<open>_generate_audio\<close> be
  creatable. Then the list of segment files is empty, the log holds no call of the muxing
  utility that it did not hold before, and \<^verbatim>\<open>process\<close> returns the record with the error
  \<^verbatim>\<open>"Failed to generate audio"\<close>, whose \<^verbatim>\<open>"sources_found"\<close> is the transcript header followed
  by the line of every dialogue line, in order, and which has no key \<^verbatim>\<open>"audio_output"\<close>.
\<close>

theorem all_lines_fail_gives_audio_failure:
  assumes "produced_dialogue e sources c w = Inr (PList lines)"
    and "list_all has_speaker_and_text lines"
    and "list_all (\<lambda>p. synthesis_fails e (fst p) (snd p)) (enumerate 0 lines)"
    and "\<not> file_exists (uploads_dir e) w" and "\<not> file_exists (temp_dir_of e) w"
  shows "fst (segments_loop e (temp_dir_of e) (enumerate 0 lines) [] v) = Inr []
       \<and> filter is_ffmpeg_call (calls (snd (process e sources c w)))
           = filter is_ffmpeg_call (calls w)
       \<and> fst (process e sources c w)
           = audio_failure_result e
               (transcript_header @ concat (map (line_markup e) lines)) (length lines)
       \<and> map_of (fst (process e sources c w)) ''error'' = Some (PStr ''Failed to generate audio'')
       \<and> map_of (fst (process e sources c w)) ''sources_found''
           = Some (PStr (transcript_header @ concat (map (line_markup e) lines)))
       \<and> map_of (fst (process e sources c w)) ''audio_output'' = None"
proof -
  obtain content t w1 where ag: "aggregate e sources c w = (content, t, w1)"
    by (cases "aggregate e sources c w")
  obtain d w2 where gd: "generate_podcast_dialogue e content (get_topic c) w1 = (d, w2)"
    by (cases "generate_podcast_dialogue e content (get_topic c) w1")
  from assms(1) ag gd have d: "d = Inr (PList lines)" by (simp add: produced_dialogue_def)
  have w1: "files w1 = files w" "filter is_ffmpeg_call (calls w1) = filter is_ffmpeg_call (calls w)"
    using aggregate_world [of e sources c w] ag by simp_all
  have w2: "files w2 = files w" "filter is_ffmpeg_call (calls w2) = filter is_ffmpeg_call (calls w)"
    using generate_podcast_dialogue_world [of e content "get_topic c" w1] gd w1 by simp_all
  from assms(4,5) w2 have ok: "\<not> file_exists (uploads_dir e) w2" "\<not> file_exists (temp_dir_of e) w2"
    by (simp_all add: file_exists_def)
  obtain a w3 where ga: "generate_audio e (PList lines) (get_topic c) w2 = (a, w3)"
    by (cases "generate_audio e (PList lines) (get_topic c) w2")
  from generate_audio_all_fail [OF assms(2,3) ok, of "get_topic c"] ga
  have a: "a = Inr []" and w3: "filter is_ffmpeg_call (calls w3) = filter is_ffmpeg_call (calls w2)"
    by simp_all
  have fm: "format_dialogue_as_text e (PList lines)
              = Inr (transcript_header @ concat (map (line_markup e) lines))"
    by (simp add: format_dialogue_as_text_def format_lines_eq [OF assms(2)])
  have p: "process e sources c w =
             (audio_failure_result e (transcript_header @ concat (map (line_markup e) lines))
                (length lines), w3)"
    by (simp add: process_def process_body_def ag gd d ga a fm)
  from p w3 w2 segments_loop_all_fail [OF assms(2,3), of "temp_dir_of e" v]
  show ?thesis by (simp add: audio_failure_result_keys)
qed

lemma silent_speech_dialogue:
  "produced_dialogue silent_speech_env [] \<lparr>ctx_topic = Some ''climate change''\<rparr> empty_world
     = Inr (PList (fallback_dialogue [] ''climate change''))"
  by (simp add: produced_dialogue_def aggregate_def extract_title_from_content_def
      title_scan.simps title_like_def py_strip_def strip_where_def Let_def
      generate_podcast_dialogue_def parse_dialogue_def unwrap_code_block_def startswith_def
      py_isspace_def example_json_loads_def silent_speech_env_def example_env_def get_topic_def
      split: prod.splits)

theorem all_lines_fail_gives_audio_failure_witness:
  "produced_dialogue silent_speech_env [] \<lparr>ctx_topic = Some ''climate change''\<rparr> empty_world
     = Inr (PList (fallback_dialogue [] ''climate change''))
   \<and> map_of (fst (process silent_speech_env [] \<lparr>ctx_topic = Some ''climate change''\<rparr> empty_world))
        ''sources_found''
       = Some (PStr (''# Podcast Transcript\<newline>\<newline>''
           @ ''**Host**: Welcome to this educational podcast about climate change.\<newline>\<newline>''
           @ ''**Guest**: Thank you for having me. I'm excited to discuss this topic.\<newline>\<newline>''
           @ ''**Host**: Let's start with the basics. Could you give our listeners an overview?\<newline>\<newline>''
           @ ''**Guest**: Certainly. ...\<newline>\<newline>''
           @ ''**Host**: That's fascinating. What are some practical applications of this knowledge?\<newline>\<newline>''
           @ ''**Guest**: There are several applications worth discussing...\<newline>\<newline>''))
   \<and> map_of (fst (process silent_speech_env [] \<lparr>ctx_topic = Some ''climate change''\<rparr> empty_world))
        ''audio_output'' = None
   \<and> filter is_ffmpeg_call
        (calls (snd (process silent_speech_env [] \<lparr>ctx_topic = Some ''climate change''\<rparr> empty_world)))
       = []"
proof -
  let ?lines = "fallback_dialogue [] ''climate change''"
  have fails: "list_all (\<lambda>p. synthesis_fails silent_speech_env (fst p) (snd p)) (enumerate 0 ?lines)"
    by (simp add: list_all_iff synthesis_fails_def silent_speech_env_def example_env_def
        split: sum.splits prod.splits)
  have dirs: "\<not> file_exists (uploads_dir silent_speech_env) empty_world"
    "\<not> file_exists (temp_dir_of silent_speech_env) empty_world"
    by (simp_all add: file_exists_def empty_world_def)
  have markup: "concat (map (line_markup silent_speech_env) ?lines) =
           ''**Host**: Welcome to this educational podcast about climate change.\<newline>\<newline>''
           @ ''**Guest**: Thank you for having me. I'm excited to discuss this topic.\<newline>\<newline>''
           @ ''**Host**: Let's start with the basics. Could you give our listeners an overview?\<newline>\<newline>''
           @ ''**Guest**: Certainly. ...\<newline>\<newline>''
           @ ''**Host**: That's fascinating. What are some practical applications of this knowledge?\<newline>\<newline>''
           @ ''**Guest**: There are several applications worth discussing...\<newline>\<newline>''"
    by (simp add: fallback_dialogue_def dialogue_line_def line_markup_def transcript_line_def
        fmt_def)
  from all_lines_fail_gives_audio_failure
    [OF silent_speech_dialogue fallback_has_speaker_and_text fails dirs, where v = empty_world]
    silent_speech_dialogue markup
  show ?thesis by (simp add: transcript_header_def empty_world_def audio_failure_result_keys)
qed

section \<open>The script writer\<close>

lemma strip_where_sandwich:
  assumes "list_all p xs" and "list_all p ys" and "m \<noteq> []" and "\<not> p (hd m)" and "\<not> p (last m)"
  shows "strip_where p (xs @ m @ ys) = m"
proof -
  from assms(3,4) have front: "dropWhile p (m @ ys) = m @ ys"
    by (cases m) simp_all
  from assms(1) have "dropWhile p (xs @ m @ ys) = dropWhile p (m @ ys)"
    by (simp add: dropWhile_append2 list_all_iff)
  with front have a: "dropWhile p (xs @ m @ ys) = m @ ys" by simp
  from assms(3,5) have rear: "dropWhile p (rev m) = rev m"
    by (cases m rule: rev_cases) simp_all
  from assms(2) have "dropWhile p (rev ys @ rev m) = dropWhile p (rev m)"
    by (intro dropWhile_append2) (simp add: list_all_iff)
  with rear have b: "dropWhile p (rev (m @ ys)) = rev m" by simp
  show ?thesis by (simp only: strip_where_def a b rev_rev_ident)
qed

lemma space_not_backtick: "py_isspace c \<Longrightarrow> c \<noteq> CHR 0x60"
  by (auto simp: py_isspace_def)

lemma hd_padded:
  "m \<noteq> [] \<Longrightarrow> hd (xs @ m @ ys) = (if xs = [] then hd m else hd xs)"
  by (cases xs) simp_all

lemma last_padded:
  "m \<noteq> [] \<Longrightarrow> last (xs @ m @ ys) = (if ys = [] then last m else last ys)"
  by simp

lemma strip_backticks_fence:
  assumes "list_all py_isspace ws1" and "list_all py_isspace ws2" and "bare body"
  shows "py_strip_chars ''`'' (''```'' @ (ws1 @ body @ ws2) @ ''```'') = ws1 @ body @ ws2"
proof -
  let ?p = "\<lambda>c. c \<in> set ''`''"
  from assms(3) have ne: "body \<noteq> []" by (simp add: bare_def)
  have h: "\<not> ?p (hd (ws1 @ body @ ws2))"
    using assms(1,3) ne space_not_backtick [of "hd ws1"]
    by (cases ws1) (auto simp: bare_def)
  have l: "\<not> ?p (last (ws1 @ body @ ws2))"
    using assms(2,3) ne space_not_backtick [of "last ws2"]
    by (cases ws2 rule: rev_cases) (auto simp: bare_def)
  have "strip_where ?p (''```'' @ (ws1 @ body @ ws2) @ ''```'') = ws1 @ body @ ws2"
    by (rule strip_where_sandwich) (use ne h l in simp_all)
  then show ?thesis by (simp only: py_strip_chars_def)
qed

lemma py_strip_padded:
  assumes "list_all py_isspace ws1" and "list_all py_isspace ws2" and "bare body"
  shows "py_strip (ws1 @ body @ ws2) = body"
  unfolding py_strip_def
  by (rule strip_where_sandwich) (use assms in \<open>simp_all add: bare_def\<close>)

lemma unwrap_plain: "\<not> startswith raw ''```'' \<Longrightarrow> unwrap_code_block raw = raw"
  by (simp add: unwrap_code_block_def)

lemma unwrap_fence:
  assumes "list_all py_isspace ws1" and "list_all py_isspace ws2" and "bare body"
    and "\<not> startswith (py_lower body) ''json''"
  shows "unwrap_code_block (''```'' @ ws1 @ body @ ws2 @ ''```'') = body"
proof -
  have s: "startswith (''```'' @ ws1 @ body @ ws2 @ ''```'') ''```''"
    by (simp add: startswith_def)
  from strip_backticks_fence [OF assms(1-3)]
  have b: "py_strip_chars ''`'' (''```'' @ ws1 @ body @ ws2 @ ''```'') = ws1 @ body @ ws2"
    by simp
  show ?thesis
    by (simp only: unwrap_code_block_def s b py_strip_padded [OF assms(1-3)] assms(4) Let_def if_True if_False)
qed


lemma unwrap_json_fence:
  assumes "list_all py_isspace ws1" and "list_all py_isspace ws2" and "bare body"
  shows "unwrap_code_block (''```json'' @ ws1 @ body @ ws2 @ ''```'') = body"
proof -
  let ?raw = "''```json'' @ ws1 @ body @ ws2 @ ''```''"
  from assms(3) have ne: "body \<noteq> []" by (simp add: bare_def)
  have s: "startswith ?raw ''```''" by (simp add: startswith_def)
  have jb: "bare (''json'' @ ws1 @ body)"
    using assms(3) ne by (simp add: bare_def py_isspace_def)
  have "py_strip_chars ''`'' (''```'' @ ([] @ (''json'' @ ws1 @ body) @ ws2) @ ''```'')
          = [] @ (''json'' @ ws1 @ body) @ ws2"
    by (rule strip_backticks_fence) (use assms(2) jb in simp_all)
  then have b: "py_strip_chars ''`'' ?raw = ''json'' @ ws1 @ body @ ws2" by simp
  have "py_strip ([] @ (''json'' @ ws1 @ body) @ ws2) = ''json'' @ ws1 @ body"
    by (rule py_strip_padded) (use assms(2) jb in simp_all)
  then have r1: "py_strip (''json'' @ ws1 @ body @ ws2) = ''json'' @ ws1 @ body" by simp
  have low: "startswith (py_lower (''json'' @ ws1 @ body)) ''json''"
    by (simp add: startswith_def py_lower_def lower_char_def)
  have "py_strip (ws1 @ body @ []) = body"
    by (rule py_strip_padded) (use assms(1,3) in simp_all)
  then have r2: "py_strip (drop (length ''json'') (''json'' @ ws1 @ body)) = body" by simp
  show ?thesis
    by (simp only: unwrap_code_block_def s b r1 low r2 Let_def if_True)
qed

lemma py_len_fails:
  "isl (py_len v) =
     (case v of PStr s \<Rightarrow> False | PList xs \<Rightarrow> False | PDict kvs \<Rightarrow> False | _ \<Rightarrow> True)"
  by (cases v) simp_all

lemma dialogue_call_failure_propagates:
  "chat_create e (dialogue_request content topic) = Inl ex \<Longrightarrow>
     fst (generate_podcast_dialogue e content topic w) = Inl ex"
  by (simp add: generate_podcast_dialogue_def Let_def)

text \<open>
  Claim C2, as amended. Whenever the call of the language model returns a response,
  \<^verbatim>\<open>_generate_podcast_dialogue\<close> returns a value that has a length and raises nothing. When
  the body of its \<^verbatim>\<open>try\<close> raises, which it does when the response has no content and when
  \<^verbatim>\<open>json.loads\<close> raises on the unwrapped text, the value is the fallback script, of length
  6. Otherwise the value is the parsed JSON value as it is; its length may be 0.
\<close>

theorem write_script_returns_when_call_returns:
  assumes "chat_create e (dialogue_request content topic) = Inr response"
  shows "\<exists>d n. fst (generate_podcast_dialogue e content topic w) = Inr d
         \<and> py_len d = Inr n
         \<and> (case parse_dialogue e response of
               Inl ex \<Rightarrow> d = PList (fallback_dialogue content topic) \<and> n = 6
             | Inr parsed_list \<Rightarrow> d = parsed_list)
         \<and> (response = None \<longrightarrow> isl (parse_dialogue e response))
         \<and> (\<forall>answer. response = Some answer
               \<longrightarrow> isl (json_loads e (unwrap_code_block (py_strip answer)))
               \<longrightarrow> isl (parse_dialogue e response))"
proof (cases "parse_dialogue e response")
  case (Inl ex)
  with assms show ?thesis
    by (auto simp: generate_podcast_dialogue_def Let_def fallback_dialogue_def
        parse_dialogue_def split: option.splits sum.splits)
next
  case (Inr parsed_list)
  then obtain n where "py_len parsed_list = Inr n"
    by (auto simp: parse_dialogue_def split: option.splits sum.splits)
  with Inr assms show ?thesis
    by (auto simp: generate_podcast_dialogue_def Let_def parse_dialogue_def
        split: option.splits sum.splits)
qed

theorem write_script_returns_when_call_returns_witness:
  "chat_create (example_env ''not json at all'') (dialogue_request ''Climate change causes...'' ''climate change'')
     = Inr (Some ''not json at all'')
   \<and> fst (generate_podcast_dialogue (example_env ''not json at all'') ''Climate change causes...''
             ''climate change'' empty_world)
       = Inr (PList (fallback_dialogue ''Climate change causes...'' ''climate change''))"
proof -
  let ?e = "example_env ''not json at all''"
  have c: "chat_create ?e (dialogue_request ''Climate change causes...'' ''climate change'')
             = Inr (Some ''not json at all'')"
    by (simp add: example_env_def)
  have p: "isl (json_loads ?e (unwrap_code_block (py_strip ''not json at all'')))"
    by (simp add: example_env_def example_json_loads_def unwrap_code_block_def startswith_def
        py_strip_def strip_where_def py_isspace_def)
  from write_script_returns_when_call_returns [OF c, of empty_world] p
  obtain d n where d: "fst (generate_podcast_dialogue ?e ''Climate change causes...''
                           ''climate change'' empty_world) = Inr d"
    and "case parse_dialogue ?e (Some ''not json at all'') of
           Inl ex \<Rightarrow> d = PList (fallback_dialogue ''Climate change causes...'' ''climate change'')
                     \<and> n = (6::nat)
         | Inr parsed_list \<Rightarrow> d = parsed_list"
    and "isl (parse_dialogue ?e (Some ''not json at all''))"
    by auto
  then have "d = PList (fallback_dialogue ''Climate change causes...'' ''climate change'')"
    by (cases "parse_dialogue ?e (Some ''not json at all'')") simp_all
  with c d show ?thesis by simp
qed

text \<open>
  The claim as stated fails on the answer \<^verbatim>\<open>[]\<close>: it is valid JSON, so the empty list
  is the script returned, of length 0.
\<close>

theorem write_script_counterexample:
  "fst (generate_podcast_dialogue (example_env ''[]'') ''Climate change causes...''
          ''climate change'' empty_world) = Inr (PList [])
   \<and> py_len (PList []) = Inr 0"
  by (simp add: generate_podcast_dialogue_def parse_dialogue_def Let_def example_env_def
      example_json_loads_def unwrap_code_block_def startswith_def py_strip_def strip_where_def
      py_isspace_def)


text \<open>
  Claim C6, as amended. For a response with content, the content is trimmed; only when it
  then starts with three backticks are the backticks taken off both ends, the rest
  trimmed, and a leading \<^verbatim>\<open>json\<close> taken off with the white space after it, so that a body
  between \<^verbatim>\<open>```json\<close> and \<^verbatim>\<open>```\<close>, or between \<^verbatim>\<open>```\<close> and \<^verbatim>\<open>```\<close>, comes out as the body; a
  text that does not start with three backticks is parsed as it is. When \<^verbatim>\<open>json.loads\<close>
  raises on that text, or the parsed value is \<^verbatim>\<open>null\<close>, a boolean or a number, the fallback
  script is returned. Every other parsed value is returned unchanged: a list whatever
  its elements are, and an object or a string as well.
\<close>

theorem dialogue_post_processing:
  assumes "chat_create e (dialogue_request content topic) = Inr (Some answer)"
  shows "fst (generate_podcast_dialogue e content topic w) =
           Inr (case json_loads e (unwrap_code_block (py_strip answer)) of
                  Inl ex \<Rightarrow> PList (fallback_dialogue content topic)
                | Inr v \<Rightarrow>
                    (case v of
                       PStr s \<Rightarrow> v
                     | PList xs \<Rightarrow> v
                     | PDict kvs \<Rightarrow> v
                     | _ \<Rightarrow> PList (fallback_dialogue content topic)))
       \<and> (\<forall>raw. \<not> startswith raw ''```'' \<longrightarrow> unwrap_code_block raw = raw)
       \<and> (\<forall>ws1 ws2 body.
             list_all py_isspace ws1 \<and> list_all py_isspace ws2 \<and> bare body \<longrightarrow>
               unwrap_code_block (''```json'' @ ws1 @ body @ ws2 @ ''```'') = body
               \<and> (\<not> startswith (py_lower body) ''json'' \<longrightarrow>
                    unwrap_code_block (''```'' @ ws1 @ body @ ws2 @ ''```'') = body))"
proof -
  have run: "fst (generate_podcast_dialogue e content topic w) =
           Inr (case json_loads e (unwrap_code_block (py_strip answer)) of
                  Inl ex \<Rightarrow> PList (fallback_dialogue content topic)
                | Inr v \<Rightarrow>
                    (case v of
                       PStr s \<Rightarrow> v
                     | PList xs \<Rightarrow> v
                     | PDict kvs \<Rightarrow> v
                     | _ \<Rightarrow> PList (fallback_dialogue content topic)))"
    using assms
    by (simp add: generate_podcast_dialogue_def parse_dialogue_def Let_def
        split: sum.splits pyval.splits)
  from run unwrap_plain unwrap_json_fence unwrap_fence show ?thesis by blast
qed

theorem dialogue_post_processing_witness:
  "chat_create (example_env ''```json [{}] ```'') (dialogue_request [] ''t'')
     = Inr (Some ''```json [{}] ```'')
   \<and> unwrap_code_block ''```json [{}] ```'' = ''[{}]''
   \<and> fst (generate_podcast_dialogue (example_env ''```json [{}] ```'') [] ''t'' empty_world)
       = Inr (PList [PDict []])"
proof -
  let ?e = "example_env ''```json [{}] ```''"
  have c: "chat_create ?e (dialogue_request [] ''t'') = Inr (Some ''```json [{}] ```'')"
    by (simp add: example_env_def)
  note th = dialogue_post_processing [OF c, of empty_world]
  have sp: "list_all py_isspace '' ''" by (simp add: py_isspace_def)
  have br: "bare ''[{}]''" by (simp add: bare_def py_isspace_def)
  from th sp br have "unwrap_code_block (''```json'' @ '' '' @ ''[{}]'' @ '' '' @ ''```'') = ''[{}]''"
    by blast
  then have u: "unwrap_code_block ''```json [{}] ```'' = ''[{}]''" by simp
  have s: "py_strip ''```json [{}] ```'' = ''```json [{}] ```''"
    by (simp add: py_strip_def strip_where_def py_isspace_def)
  have j: "json_loads ?e ''[{}]'' = Inr (PList [PDict []])"
    by (simp add: example_env_def example_json_loads_def)
  from th have "fst (generate_podcast_dialogue ?e [] ''t'' empty_world) = Inr (PList [PDict []])"
    by (simp add: s u j)
  with c u show ?thesis by simp
qed

text \<open>
  The claim as stated fails on the answers \<^verbatim>\<open>{}\<close> and \<^verbatim>\<open>[{}]\<close>: the first has a root that
  is not an array, the line of the second has none of the keys, and each is returned in
  place of the fallback script.
\<close>

theorem dialogue_post_processing_counterexample:
  "fst (generate_podcast_dialogue (example_env ''{}'') [] ''t'' empty_world) = Inr (PDict [])
   \<and> fst (generate_podcast_dialogue (example_env ''[{}]'') [] ''t'' empty_world)
       = Inr (PList [PDict []])
   \<and> py_getitem (PDict []) ''speaker'' = Inl (Exn KeyError (quoted ''speaker''))
   \<and> PDict [] \<noteq> PList (fallback_dialogue [] ''t'')
   \<and> PList [PDict []] \<noteq> PList (fallback_dialogue [] ''t'')"
  by (simp add: generate_podcast_dialogue_def parse_dialogue_def Let_def example_env_def
      example_json_loads_def unwrap_code_block_def startswith_def py_strip_def strip_where_def
      py_isspace_def fallback_dialogue_def)

section \<open>Failure results and the transcript\<close>

text \<open>
  Claim C9, as amended. A result of \<^verbatim>\<open>process\<close> is of one of two kinds. Either it is the
  record of the catch-all handler: its \<^verbatim>\<open>"error"\<close> holds the message of the exception and
  its \<^verbatim>\<open>"sources_found"\<close> holds the fixed text \<^verbatim>\<open>"Failed to generate podcast"\<close>, whether or
  not a dialogue had been produced before the exception. Or a dialogue was produced and
  could be formatted, and \<^verbatim>\<open>"sources_found"\<close> holds the formatted transcript of the whole
  dialogue: this is so for the failure record with the error \<^verbatim>\<open>"Failed to generate audio"\<close>
  and for the success record.
\<close>

theorem failure_results_and_transcript:
  "(\<exists>ex. fst (process e sources c w) = error_result e ex
         \<and> map_of (fst (process e sources c w)) ''error''
             = Some (PStr (''Error in podcast generation: '' @ exn_str ex))
         \<and> map_of (fst (process e sources c w)) ''sources_found''
             = Some (PStr ''Failed to generate podcast''))
   \<or> (\<exists>dialogue t n.
          produced_dialogue e sources c w = Inr dialogue
        \<and> format_dialogue_as_text e dialogue = Inr t
        \<and> py_len dialogue = Inr n
        \<and> map_of (fst (process e sources c w)) ''sources_found'' = Some (PStr t)
        \<and> ((fst (process e sources c w) = audio_failure_result e t n
              \<and> map_of (fst (process e sources c w)) ''error''
                  = Some (PStr ''Failed to generate audio''))
            \<or> (\<exists>p d. fst (process e sources c w) = success_result e t p n d
                      \<and> map_of (fst (process e sources c w)) ''error'' = None)))"
proof -
  obtain content t0 w1 where ag: "aggregate e sources c w = (content, t0, w1)"
    by (cases "aggregate e sources c w")
  obtain r w2 where gd: "generate_podcast_dialogue e content (get_topic c) w1 = (r, w2)"
    by (cases "generate_podcast_dialogue e content (get_topic c) w1")
  have pd: "produced_dialogue e sources c w = r"
    by (simp add: produced_dialogue_def ag gd)
  show ?thesis
  proof (cases r)
    case (Inl ex)
    with ag gd have "fst (process e sources c w) = error_result e ex"
      by (simp add: process_def process_body_def)
    then show ?thesis by (auto simp: error_result_keys)
  next
    case (Inr dialogue)
    show ?thesis
    proof (cases "py_len dialogue")
      case (Inl ex)
      with ag gd \<open>r = Inr dialogue\<close> have "fst (process e sources c w) = error_result e ex"
        by (simp add: process_def process_body_def)
      then show ?thesis by (auto simp: error_result_keys)
    next
      case n: (Inr n)
      obtain a w3 where ga: "generate_audio e dialogue (get_topic c) w2 = (a, w3)"
        by (cases "generate_audio e dialogue (get_topic c) w2")
      show ?thesis
      proof (cases a)
        case (Inl ex)
        with ag gd \<open>r = Inr dialogue\<close> n ga
        have "fst (process e sources c w) = error_result e ex"
          by (simp add: process_def process_body_def)
        then show ?thesis by (auto simp: error_result_keys)
      next
        case a: (Inr audio_path)
        show ?thesis
        proof (cases "format_dialogue_as_text e dialogue")
          case (Inl ex)
          with ag gd \<open>r = Inr dialogue\<close> n ga a
          have "fst (process e sources c w) = error_result e ex"
            by (simp add: process_def process_body_def)
          then show ?thesis by (auto simp: error_result_keys)
        next
          case t: (Inr t)
          show ?thesis
          proof (cases "audio_path = []")
            case True
            with ag gd \<open>r = Inr dialogue\<close> n ga a t
            have "fst (process e sources c w) = audio_failure_result e t n"
              by (simp add: process_def process_body_def)
            with pd \<open>r = Inr dialogue\<close> n t show ?thesis
              by (auto simp: audio_failure_result_keys)
          next
            case False
            with ag gd \<open>r = Inr dialogue\<close> n ga a t
            have "\<exists>d. fst (process e sources c w) = success_result e t audio_path n d"
              by (auto simp: process_def process_body_def split: prod.splits)
            with pd \<open>r = Inr dialogue\<close> n t show ?thesis
              by (auto simp: success_result_keys)
          qed
        qed
      qed
    qed
  qed
qed

text \<open>
  The claim as stated fails in two runs that end in the catch-all handler after a
  dialogue was produced. In the first the chat service answers with two lines, the second
  without a text: the transcript of the first line could be built, the formatting of the
  second raises, and the result holds the fixed text. In the second run the fallback
  script was produced and can be formatted, \<^verbatim>\<open>os.makedirs\<close> raises because the path of the
  uploads directory is a regular file, and the result holds the fixed text again.
\<close>

theorem failure_transcript_counterexample:
  "produced_dialogue (example_env two_line_answer) [] \<lparr>ctx_topic = Some ''t''\<rparr> empty_world
     = Inr (PList [PDict [(''speaker'', PStr ''Host''), (''text'', PStr ''Hi''),
                          (''voice_id'', PStr ''v'')],
                   PDict [(''speaker'', PStr ''Guest'')]])
   \<and> line_markup (example_env two_line_answer)
         (PDict [(''speaker'', PStr ''Host''), (''text'', PStr ''Hi''), (''voice_id'', PStr ''v'')])
       = ''**Host**: Hi\<newline>\<newline>''
   \<and> map_of (fst (process (example_env two_line_answer) [] \<lparr>ctx_topic = Some ''t''\<rparr> empty_world))
         ''sources_found'' = Some (PStr ''Failed to generate podcast'')
   \<and> produced_dialogue (example_env ''not json at all'') [] \<lparr>ctx_topic = Some ''t''\<rparr> blocked_world
       = Inr (PList (fallback_dialogue [] ''t''))
   \<and> \<not> isl (format_dialogue_as_text (example_env ''not json at all'')
               (PList (fallback_dialogue [] ''t'')))
   \<and> map_of (fst (process (example_env ''not json at all'') [] \<lparr>ctx_topic = Some ''t''\<rparr>
                    blocked_world))
         ''sources_found'' = Some (PStr ''Failed to generate podcast'')"
  by code_simp

section \<open>Temporary files\<close>

text \<open>
  Claim C3 says that the segment files, the manifest and the temporary directory are
  removed on every exit path of \<^verbatim>\<open>_generate_audio\<close>. The clean-up of lines 320 to 323 stands
  on the success path only. Three runs on a script of one line: when the muxing utility
  fails, the segment file, the manifest and the temporary directory are still there when
  the function returns; when no segment was synthesized, the temporary directory is still
  there; when the muxing utility succeeds, only the output file and the uploads directory
  remain.
\<close>

theorem temporary_files_left_behind:
  "fst (generate_audio failing_ffmpeg_env one_line_dialogue ''t'' empty_world) = Inr []
   \<and> map fst (files (snd (generate_audio failing_ffmpeg_env one_line_dialogue ''t'' empty_world)))
       = [''/app/uploads/temp_segments_20240101_120000/segment_000.mp3'',
          ''/app/uploads/temp_segments_20240101_120000/file_list.txt'']
   \<and> dirs (snd (generate_audio failing_ffmpeg_env one_line_dialogue ''t'' empty_world))
       = [''/app/uploads/temp_segments_20240101_120000'', ''/app/uploads'']
   \<and> fst (generate_audio silent_speech_env one_line_dialogue ''t'' empty_world) = Inr []
   \<and> dirs (snd (generate_audio silent_speech_env one_line_dialogue ''t'' empty_world))
       = [''/app/uploads/temp_segments_20240101_120000'', ''/app/uploads'']
   \<and> fst (generate_audio (example_env []) one_line_dialogue ''t'' empty_world)
       = Inr ''/app/uploads/podcast_t_20240101_120000.mp3''
   \<and> map fst (files (snd (generate_audio (example_env []) one_line_dialogue ''t'' empty_world)))
       = [''/app/uploads/podcast_t_20240101_120000.mp3'']
   \<and> dirs (snd (generate_audio (example_env []) one_line_dialogue ''t'' empty_world))
       = [''/app/uploads'']"
  by code_simp

section \<open>The failure boundary of \<^verbatim>\<open>process\<close>\<close>

lemma aggregate_content: "fst (aggregate e sources c w) = spec_content sources"
  by (simp add: aggregate_def sources_loop_eq split_beta)

lemma dialogue_has_length:
  "generate_podcast_dialogue e content topic w = (Inr d, w') \<Longrightarrow> \<exists>n. py_len d = Inr n"
  by (auto simp: generate_podcast_dialogue_def parse_dialogue_def Let_def fallback_dialogue_def
      split: sum.splits option.splits)

lemma makedirs_same_files:
  "files w' = files w \<Longrightarrow> makedirs p w = Inl ex \<Longrightarrow> makedirs p w' = Inl ex"
  by (auto simp: makedirs_def file_exists_def split: if_splits)

lemma makedirs_result:
  "makedirs p w = Inr w1 \<Longrightarrow> files w1 = files w"
  by (auto simp: makedirs_def split: if_splits)

lemma makedirs_total:
  "files w' = files w \<Longrightarrow> makedirs p w = Inr w1 \<Longrightarrow> \<exists>w1'. makedirs p w' = Inr w1' \<and> files w1' = files w"
  by (auto simp: makedirs_def file_exists_def split: if_splits)

text \<open>
  Claim C1, as amended. On a standard output that takes every message, a call of
  \<^verbatim>\<open>process\<close> returns a dictionary for every list of sources, every context and every
  world, and no exception leaves it. Every exception that leaves a stage is caught and
  turned into the error record: the exception of the chat call for the dialogue, the
  exception of either \<^verbatim>\<open>os.makedirs\<close> of \<^verbatim>\<open>_generate_audio\<close>, and the exception of
  \<^verbatim>\<open>_format_dialogue_as_text\<close>. The error record holds the message of the exception after
  \<^verbatim>\<open>"Error in podcast generation: "\<close> under \<^verbatim>\<open>"error"\<close> and the trace under
  \<^verbatim>\<open>"error_details"\<close> of its metadata. The exceptions are those that derive from
  \<^verbatim>\<open>Exception\<close>.
\<close>

theorem process_boundary:
  assumes "stdout_error e = None"
  shows "\<exists>r w'. process_call e sources c w = (Inr r, w')
     \<and> (\<forall>ex. chat_create e (dialogue_request (spec_content sources) (get_topic c)) = Inl ex
            \<longrightarrow> r = error_result e ex)
     \<and> (\<forall>d. produced_dialogue e sources c w = Inr d \<longrightarrow>
            (\<forall>ex. makedirs (uploads_dir e) w = Inl ex \<longrightarrow> r = error_result e ex)
          \<and> (\<forall>w1 ex. makedirs (uploads_dir e) w = Inr w1 \<longrightarrow>
                 makedirs (temp_dir_of e) w1 = Inl ex \<longrightarrow> r = error_result e ex)
          \<and> (\<forall>w1 w2 ex. makedirs (uploads_dir e) w = Inr w1 \<longrightarrow>
                 makedirs (temp_dir_of e) w1 = Inr w2 \<longrightarrow>
                 format_dialogue_as_text e d = Inl ex \<longrightarrow> r = error_result e ex))
     \<and> (\<forall>ex. r = error_result e ex \<longrightarrow>
            map_of r ''error'' = Some (PStr (''Error in podcast generation: '' @ exn_str ex))
          \<and> (\<exists>m. map_of r ''metadata'' = Some (PDict m)
                 \<and> map_of m ''error_details'' = Some (PStr (format_exc e ex))))"
proof -
  obtain r w' where p: "process e sources c w = (r, w')" by (cases "process e sources c w")
  with assms have call: "process_call e sources c w = (Inr r, w')"
    by (simp add: process_call_def)
  obtain content t0 w1 where ag: "aggregate e sources c w = (content, t0, w1)"
    by (cases "aggregate e sources c w")
  from aggregate_content [of e sources c w] ag have content: "content = spec_content sources"
    by simp
  from aggregate_world [of e sources c w] ag have fw1: "files w1 = files w" by simp
  obtain g w2 where gd: "generate_podcast_dialogue e content (get_topic c) w1 = (g, w2)"
    by (cases "generate_podcast_dialogue e content (get_topic c) w1")
  from generate_podcast_dialogue_world [of e content "get_topic c" w1] gd fw1
  have fw2: "files w2 = files w" by simp
  have pd: "produced_dialogue e sources c w = g"
    by (simp add: produced_dialogue_def ag gd)
  have chat: "r = error_result e ex"
    if "chat_create e (dialogue_request (spec_content sources) (get_topic c)) = Inl ex" for ex
  proof -
    from that gd content have "g = Inl ex"
      by (simp add: generate_podcast_dialogue_def Let_def)
    with dialogue_exception_reaches_handler [OF ag] gd p show ?thesis by simp
  qed
  have audio: "(\<forall>ex. makedirs (uploads_dir e) w = Inl ex \<longrightarrow> r = error_result e ex)
          \<and> (\<forall>w1 ex. makedirs (uploads_dir e) w = Inr w1 \<longrightarrow>
                 makedirs (temp_dir_of e) w1 = Inl ex \<longrightarrow> r = error_result e ex)
          \<and> (\<forall>w1 w2 ex. makedirs (uploads_dir e) w = Inr w1 \<longrightarrow>
                 makedirs (temp_dir_of e) w1 = Inr w2 \<longrightarrow>
                 format_dialogue_as_text e d = Inl ex \<longrightarrow> r = error_result e ex)"
    if "produced_dialogue e sources c w = Inr d" for d
  proof -
    from that pd have g: "g = Inr d" by simp
    with gd dialogue_has_length obtain n where n: "py_len d = Inr n" by blast
    note gd' = gd [unfolded g]
    have a1: "r = error_result e ex" if "makedirs (uploads_dir e) w = Inl ex" for ex
    proof -
      from makedirs_same_files [OF fw2 that]
      have "generate_audio e d (get_topic c) w2 = (Inl ex, w2)"
        by (simp add: generate_audio_def)
      from audio_exception_reaches_handler [OF ag gd' n this] p show ?thesis by simp
    qed
    have a2: "r = error_result e ex"
      if m1: "makedirs (uploads_dir e) w = Inr v1" and m2: "makedirs (temp_dir_of e) v1 = Inl ex"
      for v1 ex
    proof -
      from makedirs_total [OF fw2 m1] obtain v1' where
        m1': "makedirs (uploads_dir e) w2 = Inr v1'" and f1': "files v1' = files w" by blast
      from makedirs_result [OF m1] f1' have "files v1' = files v1" by simp
      from makedirs_same_files [OF this m2]
      have "generate_audio e d (get_topic c) w2 = (Inl ex, v1')"
        by (simp add: generate_audio_def m1')
      from audio_exception_reaches_handler [OF ag gd' n this] p show ?thesis by simp
    qed
    have a3: "r = error_result e ex"
      if m1: "makedirs (uploads_dir e) w = Inr v1" and m2: "makedirs (temp_dir_of e) v1 = Inr v2"
        and f: "format_dialogue_as_text e d = Inl ex" for v1 v2 ex
    proof -
      from makedirs_total [OF fw2 m1] obtain v1' where
        m1': "makedirs (uploads_dir e) w2 = Inr v1'" and f1': "files v1' = files w" by blast
      from makedirs_result [OF m1] f1' have "files v1' = files v1" by simp
      from makedirs_total [OF this m2] obtain v2' where
        m2': "makedirs (temp_dir_of e) v1' = Inr v2'" by blast
      obtain a w3 where
        "audio_try e d (temp_dir_of e) (output_path_of e (get_topic c)) v2' = (a, w3)"
        by (cases "audio_try e d (temp_dir_of e) (output_path_of e (get_topic c)) v2'")
      then have "generate_audio e d (get_topic c) w2 = (Inr a, w3)"
        by (simp add: generate_audio_def m1' m2' n)
      from transcript_exception_reaches_handler [OF ag gd' n this f] p show ?thesis by simp
    qed
    from a1 a2 a3 show ?thesis by blast
  qed
  have keys: "\<forall>ex. r = error_result e ex \<longrightarrow>
            map_of r ''error'' = Some (PStr (''Error in podcast generation: '' @ exn_str ex))
          \<and> (\<exists>m. map_of r ''metadata'' = Some (PDict m)
                 \<and> map_of m ''error_details'' = Some (PStr (format_exc e ex)))"
    by (auto simp: error_result_keys)
  from call chat audio keys show ?thesis by blast
qed


lemma process_call_on_refusing_stdout:
  "stdout_error e = Some ex \<Longrightarrow> process_call e sources c w = (Inl ex, w)"
  by (simp add: process_call_def)

theorem process_boundary_witness:
  "stdout_error failing_chat_env = None
   \<and> chat_create failing_chat_env
        (dialogue_request (spec_content []) (get_topic \<lparr>ctx_topic = Some ''climate change''\<rparr>))
       = Inl (Exn OtherError ''Connection error.'')
   \<and> fst (process_call failing_chat_env [] \<lparr>ctx_topic = Some ''climate change''\<rparr> empty_world)
       = Inr (error_result failing_chat_env (Exn OtherError ''Connection error.''))
   \<and> map_of (error_result failing_chat_env (Exn OtherError ''Connection error.'')) ''error''
       = Some (PStr ''Error in podcast generation: Connection error.'')"
proof -
  have s: "stdout_error failing_chat_env = None"
    by (simp add: failing_chat_env_def example_env_def)
  have ch: "chat_create failing_chat_env
              (dialogue_request (spec_content []) (get_topic \<lparr>ctx_topic = Some ''climate change''\<rparr>))
             = Inl (Exn OtherError ''Connection error.'')"
    by (simp add: failing_chat_env_def example_env_def)
  from process_boundary [OF s, of "[]" "\<lparr>ctx_topic = Some ''climate change''\<rparr>" empty_world] ch
  have "fst (process_call failing_chat_env [] \<lparr>ctx_topic = Some ''climate change''\<rparr> empty_world)
          = Inr (error_result failing_chat_env (Exn OtherError ''Connection error.''))"
    by auto
  with s ch show ?thesis by (simp add: error_result_keys)
qed

text \<open>
  The claim as stated fails on a standard output that cannot take the symbols of the
  messages: the message of line 122 raises inside the handler, and the exception reaches
  the caller.
\<close>

theorem process_boundary_counterexample:
  "process_call legacy_stdout_env [] \<lparr>ctx_topic = Some ''climate change''\<rparr> empty_world
     = (Inl (Exn UnicodeEncodeError
               (quoted ''ascii'' @ '' codec can't encode character '' @ quoted ([CHR 0x5C] @ ''u274c'')
                @ '' in position 0: ordinal not in range(128)'')),
        empty_world)"
  by (simp add: process_call_def legacy_stdout_env_def example_env_def)

section \<open>What the synthesis loop keeps\<close>

lemma synthesis_fails_synthesized:
  "synthesis_fails e i line = (synthesized e i line = None)"
  by (simp add: synthesis_fails_def synthesized_def split: sum.splits prod.splits)

lemma map_of_filter_other:
  "map_of (filter (\<lambda>kv. fst kv \<noteq> p) fs) q = (if q = p then None else map_of fs q)"
  by (induction fs) auto

lemma write_file_lookup:
  "map_of (files (write_file p d w)) q = (if q = p then Some d else map_of (files w) q)"
  by (simp add: write_file_def map_of_filter_other map_add_def split: option.splits)

lemma segment_file_inj: "segment_file td i = segment_file td j \<Longrightarrow> i = j"
proof -
  assume "segment_file td i = segment_file td j"
  then have "pad03d i = pad03d j" by (simp add: segment_file_def path_join_def)
  then have "nat_of_digits (pad03d i) = nat_of_digits (pad03d j)" by simp
  then show "i = j" by (simp add: nat_of_digits_pad03d)
qed

lemma try_segment_files:
  "map_of (files (snd (try_segment e td i line w))) q =
     (case synthesized e i line of
        None \<Rightarrow> map_of (files w) q
      | Some audio_bytes \<Rightarrow> if q = segment_file td i then Some audio_bytes else map_of (files w) q)"
  by (simp add: try_segment_def synthesized_def Let_def log_call_def write_file_lookup
      split: sum.splits prod.splits)

lemma segment_step_files:
  "map_of (files (snd (segment_step e td i line segs w))) q =
     (if has_speaker_and_text line
      then (case synthesized e i line of
              None \<Rightarrow> map_of (files w) q
            | Some audio_bytes \<Rightarrow>
                if q = segment_file td i then Some audio_bytes else map_of (files w) q)
      else map_of (files w) q)"
proof (cases "has_speaker_and_text line")
  case True
  then show ?thesis by (simp add: segment_step_eq try_segment_files)
next
  case False
  then show ?thesis
    by (auto simp: segment_step_def has_speaker_and_text_def split: sum.splits)
qed

lemma segments_loop_frame:
  "q \<notin> (\<lambda>p. segment_file td (fst p)) ` set ps \<Longrightarrow>
     map_of (files (snd (segments_loop e td ps segs w))) q = map_of (files w) q"
proof (induction ps arbitrary: segs w)
  case Nil
  then show ?case by simp
next
  case (Cons p ps)
  obtain i line where p: "p = (i, line)" by (cases p)
  from Cons.prems p have q: "q \<noteq> segment_file td i"
    and rest: "q \<notin> (\<lambda>p. segment_file td (fst p)) ` set ps" by auto
  have step: "map_of (files (snd (segment_step e td i line segs w))) q = map_of (files w) q"
    using q by (simp add: segment_step_files split: option.splits)
  show ?case
  proof (cases "segment_step e td i line segs w")
    case (Pair r w1)
    with step have w1: "map_of (files w1) q = map_of (files w) q" by simp
    show ?thesis
    proof (cases r)
      case (Inl ex)
      with Pair w1 p show ?thesis by simp
    next
      case (Inr segs1)
      with Pair w1 p Cons.IH [OF rest, of segs1 w1] show ?thesis by simp
    qed
  qed
qed

lemma segments_loop_files:
  assumes "list_all (\<lambda>p. has_speaker_and_text (snd p)) ps" and "distinct (map fst ps)"
    and "(i, line) \<in> set ps"
  shows "map_of (files (snd (segments_loop e td ps segs w))) (segment_file td i) =
           (case synthesized e i line of
              None \<Rightarrow> map_of (files w) (segment_file td i)
            | Some audio_bytes \<Rightarrow> Some audio_bytes)"
  using assms
proof (induction ps arbitrary: segs w)
  case Nil
  then show ?case by simp
next
  case (Cons p ps)
  obtain j l where p: "p = (j, l)" by (cases p)
  with Cons.prems have hl: "has_speaker_and_text l"
    and wf: "list_all (\<lambda>p. has_speaker_and_text (snd p)) ps"
    and dj: "j \<notin> fst ` set ps" and ds: "distinct (map fst ps)" by auto
  let ?w1 = "snd (try_segment e td j l w)"
  let ?segs1 = "if synthesis_fails e j l then segs else segs @ [segment_file td j]"
  have unfold: "segments_loop e td (p # ps) segs w = segments_loop e td ps ?segs1 ?w1"
    by (simp add: p segment_step_eq [OF hl])
  show ?case
  proof (cases "(i, line) = (j, l)")
    case True
    then have ij: "i = j" "line = l" by simp_all
    have "segment_file td j \<notin> (\<lambda>p. segment_file td (fst p)) ` set ps"
      using dj segment_file_inj by force
    from segments_loop_frame [OF this, of e ?segs1 ?w1]
    show ?thesis
      by (simp add: unfold ij try_segment_files split: option.splits)
  next
    case False
    with Cons.prems(3) p have mem: "(i, line) \<in> set ps" by auto
    with dj have ne: "i \<noteq> j" by force
    then have "segment_file td i \<noteq> segment_file td j" using segment_file_inj by blast
    with Cons.IH [OF wf ds mem, of ?segs1 ?w1]
    show ?thesis
      by (simp add: unfold try_segment_files split: option.splits)
  qed
qed

lemma distinct_positions: "distinct (map fst (enumerate k xs))"
  by (simp add: map_fst_enumerate)


text \<open>
  Claim C7, as amended. Let every line of the script have a speaker and a text. The
  synthesis loop takes the lines in order and ends normally. A line is skipped exactly
  when its inner \<^verbatim>\<open>try\<close> raises, and it is not tried again: the speech service is called
  at most once for a line, in the order of the lines. A line whose call returns is kept,
  whatever the bytes returned, an empty response included: the bytes are written to the
  segment file of the line, and a line that is skipped leaves the file of its name as it
  was. The result holds the segment files of the lines kept and of no other, in the order
  of the lines (the positions kept increase strictly), so its length is the length of the
  script less the number of lines skipped: the length of the script less one when exactly
  one line raises. The file of the line at position \<open>i\<close> is \<^verbatim>\<open>segment_<i>.mp3\<close> in the
  temporary directory, \<open>i\<close> being written in decimal with zeros in front up to three digits
  (exactly three below 1000).
\<close>

theorem synthesis_keeps_what_returns:
  assumes "list_all has_speaker_and_text lines"
  shows "\<exists>segment_files w'.
           segments_loop e td (enumerate 0 lines) [] w = (Inr segment_files, w')
         \<and> segment_files =
             map (\<lambda>p. segment_file td (fst p))
               (filter (\<lambda>p. \<not> synthesis_fails e (fst p) (snd p)) (enumerate 0 lines))
         \<and> sorted_wrt (<)
             (map fst (filter (\<lambda>p. \<not> synthesis_fails e (fst p) (snd p)) (enumerate 0 lines)))
         \<and> length segment_files
             + length (filter (\<lambda>p. synthesis_fails e (fst p) (snd p)) (enumerate 0 lines))
             = length lines
         \<and> (length (filter (\<lambda>p. synthesis_fails e (fst p) (snd p)) (enumerate 0 lines)) = 1
              \<longrightarrow> length segment_files = length lines - 1)
         \<and> (\<forall>i line. synthesis_fails e i line = (synthesized e i line = None))
         \<and> list_all
             (\<lambda>p. map_of (files w') (segment_file td (fst p)) =
                    (case synthesized e (fst p) (snd p) of
                       None \<Rightarrow> map_of (files w) (segment_file td (fst p))
                     | Some audio_bytes \<Rightarrow> Some audio_bytes))
             (enumerate 0 lines)
         \<and> speech_positions (calls w') =
             speech_positions (calls w)
             @ map fst (filter (\<lambda>p. \<not> isl (speech_request (snd p))) (enumerate 0 lines))
         \<and> sorted_wrt (<)
             (map fst (filter (\<lambda>p. \<not> isl (speech_request (snd p))) (enumerate 0 lines)))
         \<and> (\<forall>i. segment_file td i = td @ ''/segment_'' @ pad03d i @ ''.mp3''
                \<and> nat_of_digits (pad03d i) = i
                \<and> (i < 1000 \<longrightarrow> length (pad03d i) = 3))"
proof -
  let ?ps = "enumerate 0 lines"
  let ?ok = "\<lambda>p. \<not> synthesis_fails e (fst p) (snd p)"
  let ?segs = "map (\<lambda>p. segment_file td (fst p)) (filter ?ok ?ps)"
  from assms have wf: "list_all (\<lambda>p. has_speaker_and_text (snd p)) ?ps"
    by (rule list_all_enumerate)
  obtain r w' where run: "segments_loop e td ?ps [] w = (r, w')"
    by (cases "segments_loop e td ?ps [] w")
  from segments_loop_result [OF wf, of e td "[]" w] run have r: "r = Inr ?segs" by simp
  from segments_loop_speech_positions [OF wf, of e td "[]" w] run
  have sp: "speech_positions (calls w') =
              speech_positions (calls w)
              @ map fst (filter (\<lambda>p. \<not> isl (speech_request (snd p))) ?ps)" by simp
  have len: "length ?segs + length (filter (\<lambda>p. synthesis_fails e (fst p) (snd p)) ?ps)
               = length lines"
    using sum_length_filter_compl [of "\<lambda>p. synthesis_fails e (fst p) (snd p)" ?ps]
    by simp
  have names: "\<forall>i. segment_file td i = td @ ''/segment_'' @ pad03d i @ ''.mp3''
                \<and> nat_of_digits (pad03d i) = i
                \<and> (i < 1000 \<longrightarrow> length (pad03d i) = 3)"
    by (simp add: segment_file_def path_join_def nat_of_digits_pad03d length_pad03d)
  from len have one:
    "length (filter (\<lambda>p. synthesis_fails e (fst p) (snd p)) ?ps) = 1
       \<longrightarrow> length ?segs = length lines - 1"
    by auto
  have written: "list_all
             (\<lambda>p. map_of (files w') (segment_file td (fst p)) =
                    (case synthesized e (fst p) (snd p) of
                       None \<Rightarrow> map_of (files w) (segment_file td (fst p))
                     | Some audio_bytes \<Rightarrow> Some audio_bytes))
             ?ps"
    unfolding list_all_iff
  proof
    fix p assume mem: "p \<in> set ?ps"
    obtain i line where p: "p = (i, line)" by (cases p)
    from segments_loop_files [OF wf distinct_positions mem [unfolded p], of e td "[]" w] run
    show "map_of (files w') (segment_file td (fst p)) =
            (case synthesized e (fst p) (snd p) of
               None \<Rightarrow> map_of (files w) (segment_file td (fst p))
             | Some audio_bytes \<Rightarrow> Some audio_bytes)"
      unfolding p by (simp split: option.splits)
  qed
  have link: "\<forall>i line. synthesis_fails e i line = (synthesized e i line = None)"
    by (simp add: synthesis_fails_synthesized)
  from run r sp len one names written link sorted_positions [of ?ok 0 lines]
    sorted_positions [of "\<lambda>p. \<not> isl (speech_request (snd p))" 0 lines]
  show ?thesis by simp
qed

theorem synthesis_keeps_what_returns_witness:
  "list_all has_speaker_and_text (fallback_dialogue [] ''t'')
   \<and> fst (segments_loop flaky_speech_env ''/up/tmp'' (enumerate 0 (fallback_dialogue [] ''t'')) []
            empty_world)
       = Inr [''/up/tmp/segment_000.mp3'', ''/up/tmp/segment_001.mp3'', ''/up/tmp/segment_003.mp3'',
              ''/up/tmp/segment_004.mp3'', ''/up/tmp/segment_005.mp3'']
   \<and> speech_positions (calls (snd (segments_loop flaky_speech_env ''/up/tmp''
                                      (enumerate 0 (fallback_dialogue [] ''t'')) [] empty_world)))
       = [0, 1, 2, 3, 4, 5]"
proof -
  have fails: "synthesis_fails flaky_speech_env i line =
                 (case speech_request line of Inl ex \<Rightarrow> True | Inr (words, voice) \<Rightarrow> i = 2)" for i line
    by (simp add: synthesis_fails_def flaky_speech_env_def example_env_def
        split: sum.splits prod.splits)
  have en: "enumerate 0 (fallback_dialogue [] ''t'') =
              zip [0, 1, 2, 3, 4, 5] (fallback_dialogue [] ''t'')"
    by (simp add: enumerate_eq_zip fallback_dialogue_def upt_rec)
  have pads: "pad03d 0 = ''000'' \<and> pad03d 1 = ''001'' \<and> pad03d 3 = ''003''
      \<and> pad03d 4 = ''004'' \<and> pad03d 5 = ''005''"
    by code_simp
  then have pad1: "pad03d (Suc 0) = ''001''" by simp
  from synthesis_keeps_what_returns [OF fallback_has_speaker_and_text,
      of flaky_speech_env "''/up/tmp''" "[]" "''t''" empty_world]
  obtain segs w' where
    run: "segments_loop flaky_speech_env ''/up/tmp'' (enumerate 0 (fallback_dialogue [] ''t'')) []
            empty_world = (Inr segs, w')"
    and segs: "segs = map (\<lambda>p. segment_file ''/up/tmp'' (fst p))
                 (filter (\<lambda>p. \<not> synthesis_fails flaky_speech_env (fst p) (snd p))
                    (enumerate 0 (fallback_dialogue [] ''t'')))"
    and sp: "speech_positions (calls w') =
               speech_positions (calls empty_world)
               @ map fst (filter (\<lambda>p. \<not> isl (speech_request (snd p)))
                            (enumerate 0 (fallback_dialogue [] ''t'')))"
    by blast
  have "segs = [''/up/tmp/segment_000.mp3'', ''/up/tmp/segment_001.mp3'', ''/up/tmp/segment_003.mp3'',
              ''/up/tmp/segment_004.mp3'', ''/up/tmp/segment_005.mp3'']"
    unfolding segs en
    by (simp add: fails fallback_dialogue_def dialogue_line_def speech_request_def
        segment_file_def path_join_def pads pad1)
  moreover have "speech_positions (calls w') = [0, 1, 2, 3, 4, 5]"
    unfolding sp en
    by (simp add: fallback_dialogue_def dialogue_line_def speech_request_def empty_world_def)
  ultimately show ?thesis using run fallback_has_speaker_and_text by simp
qed

text \<open>
  The claim as stated, which counts an empty response among the failures that are
  skipped, fails on a script of one line and a speech service that returns no bytes: the
  line is kept, and its segment file is written with no content.
\<close>

theorem empty_response_is_kept:
  "elevenlabs_generate empty_audio_env 0 (PStr ''Hi'') (PStr HOST_VOICE_ID) speech_model = Inr []
   \<and> fst (segments_loop empty_audio_env ''/up/tmp''
            (enumerate 0 [dialogue_line ''Host'' ''Hi'' HOST_VOICE_ID]) [] empty_world)
       = Inr [''/up/tmp/segment_000.mp3'']
   \<and> map_of (files (snd (segments_loop empty_audio_env ''/up/tmp''
                          (enumerate 0 [dialogue_line ''Host'' ''Hi'' HOST_VOICE_ID]) []
                          empty_world)))
        ''/up/tmp/segment_000.mp3'' = Some []"
  by code_simp

end
